theory Spec2Isabelle
  imports Complex_Main
begin

section \<open>Numbers, vectors and unit records\<close>

text \<open>
  The model follows \<open>BattleSimulator\<close> of \<open>js/game.js\<close> and the classes \<open>FighterAI\<close>
  and \<open>AnimalAI\<close> that it drives.

  JavaScript numbers are modelled as reals. The two things a real cannot be, a NaN and an
  infinity, arise in the modelled code from a division by zero, written out as the value
  \<open>None\<close>, and from reading a coordinate of a value that has none; from there they spread
  through the vectors computed from them. Calls of \<open>Math.random()\<close> are parameters of the
  functions that make them.

  \<open>vec3\<close> is a three.js \<open>Vector3\<close> of finite coordinates; \<open>normalize\<close> there is
  \<open>divideScalar (length () || 1)\<close>, so the zero vector stays the zero vector.
\<close>

datatype vec3 = Vector3 (vx: real) (vy: real) (vz: real)

definition vadd :: "vec3 \<Rightarrow> vec3 \<Rightarrow> vec3" where
  "vadd a b = Vector3 (vx a + vx b) (vy a + vy b) (vz a + vz b)"

definition subVectors :: "vec3 \<Rightarrow> vec3 \<Rightarrow> vec3" where
  "subVectors a b = Vector3 (vx a - vx b) (vy a - vy b) (vz a - vz b)"

definition multiplyScalar :: "vec3 \<Rightarrow> real \<Rightarrow> vec3" where
  "multiplyScalar a k = Vector3 (vx a * k) (vy a * k) (vz a * k)"

definition lengthSq :: "vec3 \<Rightarrow> real" where
  "lengthSq a = vx a * vx a + vy a * vy a + vz a * vz a"

definition vlength :: "vec3 \<Rightarrow> real" where
  "vlength a = sqrt (lengthSq a)"

definition normalize :: "vec3 \<Rightarrow> vec3" where
  "normalize a = multiplyScalar a (1 / (if vlength a = 0 then 1 else vlength a))"

definition distanceTo :: "vec3 \<Rightarrow> vec3 \<Rightarrow> real" where
  "distanceTo a b = vlength (subVectors a b)"

definition dot :: "vec3 \<Rightarrow> vec3 \<Rightarrow> real" where
  "dot a b = vx a * vx b + vy a * vy b + vz a * vz b"

definition zeroVector :: vec3 where
  "zeroVector = Vector3 0 0 0"

text \<open>\<open>new Vector3 (0, 0, -1).applyAxisAngle (new Vector3 (0, 1, 0), angle)\<close>: the
  rotation of the forward axis about the vertical one.\<close>

definition forwardAt :: "real \<Rightarrow> vec3" where
  "forwardAt angle = Vector3 (- sin angle) 0 (- cos angle)"

text \<open>
  A vector held by a fighter or by the animal can lose its numbers: the pull towards a
  formation slot that is not finite is a vector of three NaNs, and so is everything that
  is computed from it (sums, scalar multiples, \<open>normalize\<close>, which divides by
  \<open>NaN || 1 = 1\<close>). \<open>NaNVector\<close> is that vector. A length or distance taken from it is
  NaN, and every comparison with NaN is false; the definitions below write out the
  branch that such a comparison takes. The commander's vectors are built from the key
  steps and the arena clamp and stay finite.
\<close>

datatype jsvec = Finite vec3 | NaNVector

text \<open>The \<open>state\<close> tag of a unit is a string in the source; these are the strings that are
  ever written to it. The commander is created without the field, which is \<open>None\<close>.\<close>

datatype ustate = Idle | Moving | Attacking | Fleeing | Dead | Searching | Charging | Stunned

datatype phase = Setup | Battle | Result

text \<open>
  The score is computed in double arithmetic and floored, so its value depends on the
  rounding of the doubles (a loss at health 900 of 1000 scores 49: \<open>1 - 0.9\<close> is a little
  less than \<open>0.1\<close>). The state records which formula \<open>endBattle\<close> evaluates and on which
  numbers: \<open>WinScore alive time\<close> is \<open>1000 + alive * 100 + Math.max (0, 300 - time) * 10\<close>
  and \<open>LossScore health maxHealth\<close> is \<open>Math.floor ((1 - health / maxHealth) * 500)\<close>.
\<close>

datatype score = Number real | WinScore nat real | LossScore real real

datatype target_ref = FighterRef nat | CommanderRef

datatype js_error = TypeError

record fighter =
  f_position :: jsvec
  f_velocity :: jsvec
  f_forceAccumulator :: jsvec
  f_rotation :: real
  f_health :: real
  f_maxHealth :: real
  f_state :: ustate
  f_lastAttackTime :: real
  f_commanderInfluence :: bool

record commander =
  c_position :: vec3
  c_velocity :: vec3
  c_rotation :: real
  c_health :: real
  c_maxHealth :: real
  c_attackPower :: real
  c_lastAttackTime :: real
  c_attackCooldown :: real
  c_attackRange :: real
  c_state :: "ustate option"

record animal =
  a_position :: jsvec
  a_velocity :: jsvec
  a_rotation :: real
  a_health :: real
  a_maxHealth :: real
  a_attackPower :: real
  a_attackRange :: real
  a_moveSpeed :: real
  a_chargeSpeed :: real
  a_state :: ustate
  a_target :: "target_ref option"
  a_lastAttackTime :: real
  a_attackCooldown :: real
  a_recentDamage :: real
  a_isEnraged :: bool

record game =
  g_phase :: phase
  g_fighters :: "fighter list"
  g_animal :: "animal option"
  g_commander :: "commander option"
  g_time :: real
  g_score :: score
  g_commanderDamageDealt :: real

text \<open>The fields of \<open>FighterAI\<close> that change; of the behaviour weights only
  \<open>attackTarget\<close> is ever assigned.\<close>

record fighterAI =
  currentFormation :: string
  formationCenter :: vec3
  formationDirection :: vec3
  w_attackTarget :: real

section \<open>FighterAI.setFormation\<close>

text \<open>
  \<open>this.formations\<close> is an object literal with four own properties. A property read
  \<open>this.formations[name]\<close> that finds no own property goes on to \<open>Object.prototype\<close>,
  whose standard properties are all truthy (functions, and the \<open>__proto__\<close> accessor that
  yields \<open>Object.prototype\<close> itself).
\<close>

datatype formation_kind = Circle | Line | Arrow | Scatter

datatype property_value = FormationFunction formation_kind | InheritedFromObjectPrototype

definition object_prototype_properties :: "string list" where
  "object_prototype_properties =
     [''constructor'', ''hasOwnProperty'', ''isPrototypeOf'', ''propertyIsEnumerable'',
      ''toLocaleString'', ''toString'', ''valueOf'', ''__defineGetter__'',
      ''__defineSetter__'', ''__lookupGetter__'', ''__lookupSetter__'', ''__proto__'']"

definition formations :: "string \<Rightarrow> property_value option" where
  "formations name =
     (if name = ''circle'' then Some (FormationFunction Circle)
      else if name = ''line'' then Some (FormationFunction Line)
      else if name = ''arrow'' then Some (FormationFunction Arrow)
      else if name = ''scatter'' then Some (FormationFunction Scatter)
      else if name \<in> set object_prototype_properties then Some InheritedFromObjectPrototype
      else None)"

definition setFormation :: "string \<Rightarrow> fighterAI \<Rightarrow> bool \<times> fighterAI" where
  "setFormation formationName ai =
     (case formations formationName of
        Some _ \<Rightarrow> (True, ai\<lparr>currentFormation := formationName\<rparr>)
      | None \<Rightarrow> (False, ai))"

definition known_formations :: "string list" where
  "known_formations = [''circle'', ''line'', ''arrow'', ''scatter'']"

text \<open>The state of a freshly constructed \<open>FighterAI\<close>.\<close>

definition newFighterAI :: fighterAI where
  "newFighterAI =
     \<lparr>currentFormation = ''circle'', formationCenter = zeroVector,
      formationDirection = Vector3 0 0 (-1), w_attackTarget = 0.8\<rparr>"

section \<open>Formation slots\<close>

text \<open>
  Each formation function returns the slot of fighter \<open>index\<close> among \<open>totalFighters\<close>.
  \<open>None\<close> is a position with a component that is not a finite number: the quotient of a
  division by zero (NaN for \<open>0 / 0\<close>, an infinity otherwise) stays non-finite through the
  subtraction, the products and the sum that follow it.
\<close>

definition js_div :: "real \<Rightarrow> real \<Rightarrow> real option" where
  "js_div a b = (if b = 0 then None else Some (a / b))"

definition circleFormation :: "nat \<Rightarrow> nat \<Rightarrow> vec3 \<Rightarrow> vec3 \<Rightarrow> vec3 option" where
  "circleFormation index totalFighters center direction =
     (let radius = min (real totalFighters * 0.5) 15 in
      case js_div (real index) (real totalFighters) of
        None \<Rightarrow> None
      | Some q \<Rightarrow>
          (let angle = q * pi * 2 in
           Some (vadd (Vector3 (sin angle * radius) 0 (cos angle * radius)) center)))"

definition lineFormation :: "nat \<Rightarrow> nat \<Rightarrow> vec3 \<Rightarrow> vec3 \<Rightarrow> vec3 option" where
  "lineFormation index totalFighters center direction =
     (let perpendicular = Vector3 (- vz direction) 0 (vx direction);
          lineWidth = min (real totalFighters * 1.2) 30 in
      case js_div (real index) (real_of_int (int totalFighters - 1)) of
        None \<Rightarrow> None
      | Some q \<Rightarrow>
          (let offsetFromCenter = (q - 0.5) * lineWidth in
           Some (vadd center (multiplyScalar perpendicular offsetFromCenter))))"

definition arrowFormation :: "nat \<Rightarrow> nat \<Rightarrow> vec3 \<Rightarrow> vec3 \<Rightarrow> vec3 option" where
  "arrowFormation index totalFighters center direction =
     (if index = 0 then Some (vadd center (multiplyScalar direction 3))
      else
        (let rowSize = \<lceil>sqrt (real totalFighters)\<rceil> in
         case js_div (real index) (real_of_int rowSize) of
           None \<Rightarrow> None
         | Some q \<Rightarrow>
             (let row = \<lfloor>q\<rfloor>;
                  posInRow = int index mod rowSize;
                  rowWidth = max 1 (rowSize - row) * 2;
                  perpendicular = Vector3 (- vz direction) 0 (vx direction);
                  totalInRow = min rowSize (int totalFighters - row * rowSize) in
              case js_div (real_of_int posInRow) (real_of_int (totalInRow - 1)) of
                None \<Rightarrow> None
              | Some p \<Rightarrow>
                  (let offsetInRow = (p - 0.5) * real_of_int rowWidth in
                   Some (vadd (vadd center (multiplyScalar direction (real_of_int (- row * 2))))
                              (multiplyScalar perpendicular offsetInRow))))))"

definition scatterFormation :: "nat \<Rightarrow> nat \<Rightarrow> vec3 \<Rightarrow> vec3 \<Rightarrow> vec3 option" where
  "scatterFormation index totalFighters center direction =
     (let seed = index * 13371 mod 17;
          radius = min (real totalFighters * 0.7) 20;
          angle = (real seed / 17) * pi * 2;
          distance = real (seed mod 7) / 7 * radius in
      Some (vadd (Vector3 (sin angle * distance) 0 (cos angle * distance)) center))"

text \<open>\<open>slotPosition\<close> of the specification: the dispatch on the formation kind that
  \<open>getFormationPosition\<close> does through \<open>this.formations[this.currentFormation]\<close>.\<close>

definition slotPosition :: "formation_kind \<Rightarrow> nat \<Rightarrow> nat \<Rightarrow> vec3 \<Rightarrow> vec3 \<Rightarrow> vec3 option" where
  "slotPosition kind index totalCount center facing =
     (case kind of
        Circle \<Rightarrow> circleFormation index totalCount center facing
      | Line \<Rightarrow> lineFormation index totalCount center facing
      | Arrow \<Rightarrow> arrowFormation index totalCount center facing
      | Scatter \<Rightarrow> scatterFormation index totalCount center facing)"

section \<open>FighterAI.update\<close>

text \<open>
  Signed zeros are not modelled. The behaviour weights that are never assigned are written
  as their values: \<open>followCommander\<close> 0.5, \<open>maintainFormation\<close> 0.3, \<open>avoidDanger\<close> 0.6,
  \<open>fleeWhenInjured\<close> 0.7. The meshes, the attack animations and the other visual effects
  are left out.
\<close>

text \<open>The sum of two vectors either of which may be the NaN vector.\<close>

definition addForce :: "jsvec \<Rightarrow> jsvec \<Rightarrow> jsvec" where
  "addForce acc force =
     (case (acc, force) of
        (Finite v, Finite w) \<Rightarrow> Finite (vadd v w)
      | _ \<Rightarrow> NaNVector)"

text \<open>The remainder operator \<open>%\<close> (the quotient is truncated towards zero), \<open>Math.atan2\<close>
  and \<open>lerpAngle\<close>.\<close>

definition js_rem :: "real \<Rightarrow> real \<Rightarrow> real" where
  "js_rem a b =
     (let q = a / b in a - b * real_of_int (if q \<ge> 0 then \<lfloor>q\<rfloor> else \<lceil>q\<rceil>))"

definition atan2 :: "real \<Rightarrow> real \<Rightarrow> real" where
  "atan2 y x =
     (if x > 0 then arctan (y / x)
      else if x < 0 then (if y \<ge> 0 then arctan (y / x) + pi else arctan (y / x) - pi)
      else if y > 0 then pi / 2
      else if y < 0 then - pi / 2
      else 0)"

definition lerpAngle :: "real \<Rightarrow> real \<Rightarrow> real \<Rightarrow> real" where
  "lerpAngle a b t =
     (let delta = js_rem (b - a + pi * 3) (pi * 2) - pi in a + delta * min 1 t)"

definition updateFormationCenter :: "fighterAI \<Rightarrow> game \<Rightarrow> fighterAI" where
  "updateFormationCenter ai s =
     (case g_commander s of
        None \<Rightarrow> ai
      | Some commander \<Rightarrow>
          (let forwardOffset = 5;
               direction = forwardAt (c_rotation commander) in
           ai\<lparr>formationCenter :=
                vadd (c_position commander) (multiplyScalar direction forwardOffset),
              formationDirection := direction\<rparr>))"

text \<open>
  \<open>getFormationPosition\<close> calls the property of \<open>this.formations\<close> that
  \<open>currentFormation\<close> names, with the index, the size of the roster, the centre and the
  direction as arguments. A formation function returns its slot. Of the properties
  inherited from \<open>Object.prototype\<close>, the call throws a TypeError for \<open>__proto__\<close> (an
  object, not a function), for \<open>__defineGetter__\<close> and \<open>__defineSetter__\<close> (their second
  argument, the size of the roster, is not a function) and for \<open>__lookupGetter__\<close> and
  \<open>__lookupSetter__\<close> (they return \<open>undefined\<close>, whose \<open>x\<close> is then read). The others
  return a value that has no coordinates (an object, a boolean or a string), from which
  \<open>subVectors\<close> reads three times \<open>undefined\<close>: a position of NaNs, \<open>None\<close> here as for a
  slot that is not finite. A name that is no property at all cannot be the current
  formation; calling it would throw.
\<close>

definition throwing_when_called :: "string list" where
  "throwing_when_called =
     [''__proto__'', ''__defineGetter__'', ''__defineSetter__'', ''__lookupGetter__'',
      ''__lookupSetter__'']"

definition getFormationPosition :: "fighterAI \<Rightarrow> nat \<Rightarrow> game \<Rightarrow> js_error + vec3 option" where
  "getFormationPosition ai index s =
     (case formations (currentFormation ai) of
        Some (FormationFunction kind) \<Rightarrow>
          Inr (slotPosition kind index (length (g_fighters s))
                 (formationCenter ai) (formationDirection ai))
      | Some InheritedFromObjectPrototype \<Rightarrow>
          (if currentFormation ai \<in> set throwing_when_called then Inl TypeError else Inr None)
      | None \<Rightarrow> Inl TypeError)"

text \<open>In each of the functions that follow, the last case is the one with a NaN in it.\<close>

definition applyFormationForce ::
  "fighterAI \<Rightarrow> nat \<Rightarrow> game \<Rightarrow> fighter \<Rightarrow> jsvec \<Rightarrow> js_error + jsvec" where
  "applyFormationForce ai index s f acc =
     (case getFormationPosition ai index s of
        Inl e \<Rightarrow> Inl e
      | Inr slot \<Rightarrow>
          (case (slot, f_position f) of
             (Some formationPosition, Finite pos) \<Rightarrow>
               (let toFormation = subVectors formationPosition pos;
                    distanceToFormation = vlength toFormation;
                    formationForce =
                      multiplyScalar (normalize toFormation) (0.3 * distanceToFormation * 0.2) in
                Inr (addForce acc (Finite formationForce)))
           | _ \<Rightarrow> Inr (addForce acc NaNVector)))"

text \<open>With a NaN distance the test \<open>distanceToTarget <= attackRange\<close> is false: the
  approach force, a NaN vector, is added and the state is \<open>moving\<close>.\<close>

definition applyTargetingForce ::
  "fighterAI \<Rightarrow> game \<Rightarrow> fighter \<times> jsvec \<Rightarrow> fighter \<times> jsvec" where
  "applyTargetingForce ai s fa =
     (case fa of (f, acc) \<Rightarrow>
        (case g_animal s of
           None \<Rightarrow> (f, acc)
         | Some a \<Rightarrow>
             (case (a_position a, f_position f) of
                (Finite animalPos, Finite pos) \<Rightarrow>
                  (let attackRange = 2;
                       toTarget = subVectors animalPos pos;
                       distanceToTarget = vlength toTarget in
                   if distanceToTarget \<le> attackRange then (f\<lparr>f_state := Attacking\<rparr>, acc)
                   else
                     (f\<lparr>f_state := Moving\<rparr>,
                      addForce acc
                        (Finite (multiplyScalar (normalize toTarget) (w_attackTarget ai)))))
              | _ \<Rightarrow> (f\<lparr>f_state := Moving\<rparr>, addForce acc NaNVector))))"

text \<open>The loop of \<open>applyAvoidanceForce\<close> over the roster; \<open>j\<close> is the index of the head
  of the list, \<open>index\<close> the one of the fighter that is steered. With a NaN distance the
  test \<open>distance < avoidanceRadius\<close> is false and nothing is added.\<close>

fun avoidanceSum :: "jsvec \<Rightarrow> nat \<Rightarrow> fighter list \<Rightarrow> nat \<Rightarrow> vec3 \<Rightarrow> vec3" where
  "avoidanceSum position index [] j avoidanceForce = avoidanceForce"
| "avoidanceSum position index (otherFighter # others) j avoidanceForce =
     (if j = index \<or> f_state otherFighter = Dead
      then avoidanceSum position index others (Suc j) avoidanceForce
      else
        (case (position, f_position otherFighter) of
           (Finite pos, Finite otherPos) \<Rightarrow>
             (let avoidanceRadius = 1.5;
                  toOther = subVectors pos otherPos;
                  distance = vlength toOther in
              if distance < avoidanceRadius then
                (let avoidScale = (avoidanceRadius - distance) / avoidanceRadius in
                 avoidanceSum position index others (Suc j)
                   (vadd avoidanceForce (multiplyScalar (normalize toOther) (avoidScale * 0.6))))
              else avoidanceSum position index others (Suc j) avoidanceForce)
         | _ \<Rightarrow> avoidanceSum position index others (Suc j) avoidanceForce))"

definition applyAvoidanceForce :: "nat \<Rightarrow> game \<Rightarrow> fighter \<Rightarrow> jsvec \<Rightarrow> jsvec" where
  "applyAvoidanceForce index s f acc =
     addForce acc (Finite (avoidanceSum (f_position f) index (g_fighters s) 0 zeroVector))"

text \<open>With a NaN distance the fighter is under influence only through its flag, and the
  test \<open>distance > influenceRadius * 0.7\<close> is false.\<close>

definition applyCommanderInfluence ::
  "bool \<Rightarrow> game \<Rightarrow> fighterAI \<times> fighter \<times> jsvec \<Rightarrow> fighterAI \<times> fighter \<times> jsvec" where
  "applyCommanderInfluence mouseIsDown s afa =
     (case afa of (ai, f, acc) \<Rightarrow>
        (case g_commander s of
           None \<Rightarrow> (ai, f, acc)
         | Some commander \<Rightarrow>
             (let ai1 = ai\<lparr>w_attackTarget :=
                           (if mouseIsDown \<and> g_animal s \<noteq> None then 1.2 else 0.8)\<rparr>;
                  influenceRadius = 15 in
              case f_position f of
                Finite pos \<Rightarrow>
                  (let toCommander = subVectors (c_position commander) pos;
                       distance = vlength toCommander in
                   if f_commanderInfluence f \<or> distance < influenceRadius then
                     (let acc1 = (if distance > influenceRadius * 0.7
                                  then addForce acc
                                         (Finite (multiplyScalar (normalize toCommander) 0.5))
                                  else acc) in
                      (ai1, f\<lparr>f_commanderInfluence := False\<rparr>, acc1))
                   else (ai, f, acc))
              | NaNVector \<Rightarrow>
                  if f_commanderInfluence f
                  then (ai1, f\<lparr>f_commanderInfluence := False\<rparr>, acc)
                  else (ai, f, acc))))"

definition applyFleeingForce :: "game \<Rightarrow> fighter \<times> jsvec \<Rightarrow> fighter \<times> jsvec" where
  "applyFleeingForce s fa =
     (case fa of (f, acc) \<Rightarrow>
        (case g_animal s of
           None \<Rightarrow> (f, acc)
         | Some a \<Rightarrow>
             (case (f_position f, a_position a) of
                (Finite pos, Finite animalPos) \<Rightarrow>
                  (let fleeDirection = normalize (subVectors pos animalPos);
                       fleeForce = multiplyScalar fleeDirection (0.7 * 2) in
                   (f\<lparr>f_state := Fleeing\<rparr>, Finite fleeForce))
              | _ \<Rightarrow> (f\<lparr>f_state := Fleeing\<rparr>, NaNVector))))"

text \<open>With a NaN distance the fighter is not in range and does not attack.\<close>

definition handleFighterAttacks ::
  "real \<Rightarrow> fighter \<times> animal option \<Rightarrow> fighter \<times> animal option" where
  "handleFighterAttacks time fa =
     (case fa of (f, animal) \<Rightarrow>
        (case animal of
           None \<Rightarrow> (f, animal)
         | Some a \<Rightarrow>
             if f_state f \<noteq> Attacking then (f, animal)
             else
               (case (f_position f, a_position a) of
                  (Finite pos, Finite animalPos) \<Rightarrow>
                    (let attackRange = 2;
                         attackCooldown = 1;
                         distanceToAnimal = distanceTo pos animalPos in
                     if distanceToAnimal \<le> attackRange
                        \<and> time - f_lastAttackTime f > attackCooldown
                     then
                       (let damageAmount = (if f_commanderInfluence f then 1 * 1.5 else 1) in
                        (f\<lparr>f_lastAttackTime := time\<rparr>,
                         Some (a\<lparr>a_health := a_health a - damageAmount\<rparr>)))
                     else (f, animal))
                | _ \<Rightarrow> (f, animal))))"

text \<open>
  The move of a fighter by its accumulated force. A NaN force gives a NaN velocity and a
  NaN position, and the fighter keeps its facing (\<open>lengthSq () > 0.001\<close> is false); the
  fighter stays in the roster as it is and the loop goes on to the next one.
\<close>

definition moveFighter :: "real \<Rightarrow> fighter \<Rightarrow> jsvec \<Rightarrow> fighter" where
  "moveFighter delta f acc =
     (let maxSpeed = 5 * delta in
      case acc of
        Finite force \<Rightarrow>
          (let velocity = multiplyScalar (normalize force) maxSpeed;
               f1 = f\<lparr>f_forceAccumulator := acc, f_velocity := Finite velocity,
                      f_position := addForce (f_position f) (Finite velocity)\<rparr> in
           if lengthSq velocity > 0.001
           then f1\<lparr>f_rotation :=
                     lerpAngle (f_rotation f1) (atan2 (vx velocity) (vz velocity)) (10 * delta)\<rparr>
           else f1)
      | NaNVector \<Rightarrow>
          f\<lparr>f_forceAccumulator := NaNVector, f_velocity := NaNVector,
            f_position := NaNVector\<rparr>)"

text \<open>The body of the loop of \<open>FighterAI.update\<close> for the fighter at \<open>index\<close>.\<close>

definition updateFighter ::
  "nat \<Rightarrow> real \<Rightarrow> bool \<Rightarrow> fighterAI \<times> game \<Rightarrow> js_error + fighterAI \<times> game" where
  "updateFighter index delta mouseIsDown st =
     (case st of (ai, s) \<Rightarrow>
        (let f = g_fighters s ! index in
         if f_state f = Dead then Inr (ai, s)
         else
           (case applyFormationForce ai index s f (Finite zeroVector) of
              Inl e \<Rightarrow> Inl e
            | Inr acc1 \<Rightarrow>
                (case applyTargetingForce ai s (f, acc1) of (f2, acc2) \<Rightarrow>
                 case applyCommanderInfluence mouseIsDown s
                        (ai, f2, applyAvoidanceForce index s f2 acc2) of (ai4, f4, acc4) \<Rightarrow>
                 case (if f_health f4 < f_maxHealth f4 * 0.2
                       then applyFleeingForce s (f4, acc4) else (f4, acc4)) of (f5, acc5) \<Rightarrow>
                 case handleFighterAttacks (g_time s) (moveFighter delta f5 acc5, g_animal s)
                 of (f7, animal7) \<Rightarrow>
                   Inr (ai4, s\<lparr>g_fighters := (g_fighters s)[index := f7],
                                g_animal := animal7\<rparr>)))))"

fun forEachFighter ::
  "nat list \<Rightarrow> real \<Rightarrow> bool \<Rightarrow> fighterAI \<times> game \<Rightarrow> js_error + fighterAI \<times> game" where
  "forEachFighter [] delta mouseIsDown st = Inr st"
| "forEachFighter (index # rest) delta mouseIsDown st =
     (case updateFighter index delta mouseIsDown st of
        Inl e \<Rightarrow> Inl e
      | Inr st1 \<Rightarrow> forEachFighter rest delta mouseIsDown st1)"

definition FighterAI_update ::
  "fighterAI \<Rightarrow> real \<Rightarrow> bool \<Rightarrow> game \<Rightarrow> js_error + fighterAI \<times> game" where
  "FighterAI_update ai delta mouseIsDown s =
     (if g_phase s \<noteq> Battle then Inr (ai, s)
      else forEachFighter [0..<length (g_fighters s)] delta mouseIsDown
             (updateFormationCenter ai s, s))"

section \<open>BattleSimulator: commander attack and end of battle\<close>

text \<open>\<open>AnimalAI.recordDamageToAnimal\<close>, on the animal record.\<close>

definition recordDamageToAnimal :: "real \<Rightarrow> animal \<Rightarrow> animal" where
  "recordDamageToAnimal amount a = a\<lparr>a_recentDamage := a_recentDamage a + amount\<rparr>"

definition commanderAttack :: "game \<Rightarrow> game" where
  "commanderAttack s =
     (case g_commander s of
        None \<Rightarrow> s
      | Some commander \<Rightarrow>
          (case g_animal s of
             None \<Rightarrow> s
           | Some a \<Rightarrow>
               if g_time s - c_lastAttackTime commander < c_attackCooldown commander then s
               else
                 (case a_position a of
                    Finite animalPos \<Rightarrow>
                      if distanceTo (c_position commander) animalPos \<le> c_attackRange commander
                      then
                        (let damage = c_attackPower commander in
                         s\<lparr>g_animal :=
                              Some (recordDamageToAnimal damage
                                      (a\<lparr>a_health := a_health a - damage\<rparr>)),
                           g_commanderDamageDealt := g_commanderDamageDealt s + damage,
                           g_commander := Some (commander\<lparr>c_lastAttackTime := g_time s\<rparr>)\<rparr>)
                      else s
                  | NaNVector \<Rightarrow> s)))"

text \<open>Reading \<open>this.state.animal.health\<close> of a missing animal throws.\<close>

definition endBattle :: "bool \<Rightarrow> game \<Rightarrow> js_error + game" where
  "endBattle playerWins s =
     (if playerWins then
        (let aliveFighters = length (filter (\<lambda>f. f_state f \<noteq> Dead) (g_fighters s)) in
         Inr (s\<lparr>g_phase := Result, g_score := WinScore aliveFighters (g_time s)\<rparr>))
      else
        (case g_animal s of
           None \<Rightarrow> Inl TypeError
         | Some a \<Rightarrow>
             Inr (s\<lparr>g_phase := Result,
                    g_score := LossScore (a_health a) (a_maxHealth a)\<rparr>)))"

definition checkBattleEnd :: "game \<Rightarrow> js_error + game" where
  "checkBattleEnd s =
     (if (case g_animal s of None \<Rightarrow> False | Some a \<Rightarrow> a_health a \<le> 0)
      then endBattle True s
      else
        (let allFightersDead = list_all (\<lambda>f. f_state f = Dead) (g_fighters s);
             commanderDead = (case g_commander s of None \<Rightarrow> False | Some c \<Rightarrow> c_health c \<le> 0) in
         if (length (g_fighters s) > 0 \<and> allFightersDead) \<or> commanderDead
         then endBattle False s
         else Inr s))"

section \<open>AnimalAI: attack and rage\<close>

text \<open>
  The animal object is passed by reference in the source. Here a function of \<open>AnimalAI\<close>
  receives the animal record and returns the updated one, next to the game state that holds
  the fighters and the commander; the targets are references into that state. The draw of
  \<open>Math.random()\<close> for the target at position \<open>k\<close> of the list is \<open>rnd k\<close>.
\<close>

definition attackDamage :: "real \<Rightarrow> real \<Rightarrow> real" where
  "attackDamage baseDamage r = real_of_int \<lfloor>baseDamage * (0.8 + r * 0.4)\<rfloor>"

definition hitFighter :: "real \<Rightarrow> fighter \<Rightarrow> fighter" where
  "hitFighter damage f =
     (let f1 = f\<lparr>f_health := f_health f - damage\<rparr> in
      if f_health f1 \<le> 0 then f1\<lparr>f_health := 0, f_state := Dead\<rparr> else f1)"

definition hitCommander :: "real \<Rightarrow> commander \<Rightarrow> commander" where
  "hitCommander damage c =
     (let c1 = c\<lparr>c_health := c_health c - damage\<rparr> in
      if c_health c1 \<le> 0 then c1\<lparr>c_health := 0, c_state := Some Dead\<rparr> else c1)"

text \<open>One round of the loop over the targets. A reference that names no unit of the state
  does not occur in a list built by the source; the state is left as it is.\<close>

definition damageTarget :: "target_ref \<Rightarrow> real \<Rightarrow> real \<Rightarrow> game \<Rightarrow> game" where
  "damageTarget target baseDamage r s =
     (case target of
        FighterRef i \<Rightarrow>
          (if i < length (g_fighters s) then
             (let f = g_fighters s ! i in
              if f_state f = Dead then s
              else s\<lparr>g_fighters := (g_fighters s)[i := hitFighter (attackDamage baseDamage r) f]\<rparr>)
           else s)
      | CommanderRef \<Rightarrow>
          (case g_commander s of
             None \<Rightarrow> s
           | Some c \<Rightarrow>
               if c_state c = Some Dead then s
               else s\<lparr>g_commander := Some (hitCommander (attackDamage baseDamage r) c)\<rparr>))"

fun damageTargets :: "target_ref list \<Rightarrow> real \<Rightarrow> (nat \<Rightarrow> real) \<Rightarrow> nat \<Rightarrow> game \<Rightarrow> game" where
  "damageTargets [] baseDamage rnd k s = s"
| "damageTargets (target # targets) baseDamage rnd k s =
     damageTargets targets baseDamage rnd (Suc k) (damageTarget target baseDamage (rnd k) s)"

definition performAttack ::
  "animal \<Rightarrow> target_ref list \<Rightarrow> real \<Rightarrow> (nat \<Rightarrow> real) \<Rightarrow> game \<Rightarrow> bool \<times> animal \<times> game" where
  "performAttack a targets baseDamage rnd s =
     (if g_time s - a_lastAttackTime a < a_attackCooldown a then (False, a, s)
      else
        (True,
         a\<lparr>a_lastAttackTime := g_time s,
           a_attackCooldown := (if a_isEnraged a then 0.7 else 1.0)\<rparr>,
         damageTargets targets baseDamage rnd 0 s))"

definition updateRageState :: "animal \<Rightarrow> real \<Rightarrow> animal" where
  "updateRageState a delta =
     (let a1 = a\<lparr>a_recentDamage := a_recentDamage a * (1 - delta * 0.5)\<rparr>;
          enrageThreshold = a_maxHealth a1 * 0.1 in
      if \<not> a_isEnraged a1 \<and> a_recentDamage a1 > enrageThreshold then
        a1\<lparr>a_isEnraged := True,
           a_attackPower := a_attackPower a1 * 1.3,
           a_moveSpeed := a_moveSpeed a1 * 1.2,
           a_chargeSpeed := a_chargeSpeed a1 * 1.2\<rparr>
      else if a_isEnraged a1 \<and> a_recentDamage a1 < enrageThreshold * 0.5 then
        a1\<lparr>a_isEnraged := False,
           a_attackPower := a_attackPower a1 / 1.3,
           a_moveSpeed := a_moveSpeed a1 / 1.2,
           a_chargeSpeed := a_chargeSpeed a1 / 1.2\<rparr>
      else a1)"

text \<open>What can happen to the animal between two looks at its rage statistics without
  touching them: damage is recorded, a tick of \<open>AnimalAI.update\<close> runs \<open>updateRageState\<close>,
  an attack resets the attack timer.\<close>

datatype rage_event = RecordDamage real | RageTick real | AttackMade real

fun rage_step :: "rage_event \<Rightarrow> animal \<Rightarrow> animal" where
  "rage_step (RecordDamage amount) a = recordDamageToAnimal amount a"
| "rage_step (RageTick delta) a = updateRageState a delta"
| "rage_step (AttackMade time) a =
     a\<lparr>a_lastAttackTime := time, a_attackCooldown := (if a_isEnraged a then 0.7 else 1.0)\<rparr>"

fun rage_run :: "rage_event list \<Rightarrow> animal \<Rightarrow> animal" where
  "rage_run [] a = a"
| "rage_run (e # es) a = rage_run es (rage_step e a)"

text \<open>The gorilla of the catalogue, as \<open>createAnimal\<close> builds it, at a given position.\<close>

definition gorilla :: "vec3 \<Rightarrow> animal" where
  "gorilla pos =
     \<lparr>a_position = Finite pos, a_velocity = Finite zeroVector, a_rotation = 0, a_health = 1000,
      a_maxHealth = 1000, a_attackPower = 25, a_attackRange = 2, a_moveSpeed = 8,
      a_chargeSpeed = 12, a_state = Idle, a_target = None, a_lastAttackTime = 0,
      a_attackCooldown = 2, a_recentDamage = 0, a_isEnraged = False\<rparr>"

text \<open>A fighter and the commander as \<open>createFighter\<close> and \<open>createCommander\<close> build them.\<close>

definition newFighter :: "vec3 \<Rightarrow> fighter" where
  "newFighter pos =
     \<lparr>f_position = Finite pos, f_velocity = Finite zeroVector,
      f_forceAccumulator = Finite zeroVector,
      f_rotation = 0, f_health = 50, f_maxHealth = 50, f_state = Idle, f_lastAttackTime = 0,
      f_commanderInfluence = False\<rparr>"

definition newCommander :: commander where
  "newCommander =
     \<lparr>c_position = Vector3 0 1 0, c_velocity = zeroVector, c_rotation = 0, c_health = 200,
      c_maxHealth = 200, c_attackPower = 5, c_lastAttackTime = 0, c_attackCooldown = 0.5,
      c_attackRange = 2, c_state = None\<rparr>"

section \<open>AnimalAI: the cone attack\<close>

text \<open>
  \<open>getFightersInCone\<close> calls \<open>Math.clamp\<close>. The \<open>Math\<close> object of ECMAScript has no such
  property and no file of the repository adds one (three.js has its own, under
  \<open>THREE.MathUtils\<close>), so the call is a call of \<open>undefined\<close> and throws a TypeError. No
  function between \<open>getFightersInCone\<close> and the animation loop catches exceptions.
\<close>

definition Math_clamp :: "real option \<Rightarrow> real \<Rightarrow> real \<Rightarrow> js_error + real option" where
  "Math_clamp x lo hi = Inl TypeError"

text \<open>The angle test on the normalised vector to a unit. The dot product of a NaN vector
  is NaN (\<open>None\<close>), and no angle computed from a NaN is within the cone.\<close>

definition withinConeAngle :: "jsvec \<Rightarrow> vec3 \<Rightarrow> real \<Rightarrow> js_error + bool" where
  "withinConeAngle toUnit animalForward angle =
     (let dotProduct = (case toUnit of Finite u \<Rightarrow> Some (dot u animalForward) | NaNVector \<Rightarrow> None) in
      case Math_clamp dotProduct (-1) 1 of
        Inl e \<Rightarrow> Inl e
      | Inr clamped \<Rightarrow>
          Inr (case clamped of None \<Rightarrow> False | Some c \<Rightarrow> arccos c \<le> angle / 2))"

text \<open>The loop over the fighters; \<open>i\<close> is the index of the head of the list in the roster.
  With a NaN distance the test \<open>distance > radius\<close> is false and the fighter goes on to
  the angle test.\<close>

fun fightersInCone ::
  "animal \<Rightarrow> real \<Rightarrow> real \<Rightarrow> vec3 \<Rightarrow> fighter list \<Rightarrow> nat \<Rightarrow> target_ref list
     \<Rightarrow> js_error + target_ref list" where
  "fightersInCone a radius angle animalForward [] i results = Inr results"
| "fightersInCone a radius angle animalForward (f # fs) i results =
     (if f_state f = Dead then fightersInCone a radius angle animalForward fs (Suc i) results
      else
        (case (f_position f, a_position a) of
           (Finite pos, Finite animalPos) \<Rightarrow>
             (let toFighter = subVectors pos animalPos;
                  distance = vlength toFighter in
              if distance > radius
              then fightersInCone a radius angle animalForward fs (Suc i) results
              else
                (case withinConeAngle (Finite (normalize toFighter)) animalForward angle of
                   Inl e \<Rightarrow> Inl e
                 | Inr inside \<Rightarrow>
                     fightersInCone a radius angle animalForward fs (Suc i)
                       (if inside then results @ [FighterRef i] else results)))
         | _ \<Rightarrow>
             (case withinConeAngle NaNVector animalForward angle of
                Inl e \<Rightarrow> Inl e
              | Inr inside \<Rightarrow>
                  fightersInCone a radius angle animalForward fs (Suc i)
                    (if inside then results @ [FighterRef i] else results))))"

text \<open>For the commander the test is \<open>distance <= radius\<close>, false for a NaN distance.\<close>

definition getFightersInCone :: "animal \<Rightarrow> real \<Rightarrow> real \<Rightarrow> game \<Rightarrow> js_error + target_ref list" where
  "getFightersInCone a radius angle s =
     (let animalForward = forwardAt (a_rotation a) in
      case fightersInCone a radius angle animalForward (g_fighters s) 0 [] of
        Inl e \<Rightarrow> Inl e
      | Inr results \<Rightarrow>
          (case g_commander s of
             None \<Rightarrow> Inr results
           | Some commander \<Rightarrow>
               (case a_position a of
                  Finite animalPos \<Rightarrow>
                    (let toCommander = subVectors (c_position commander) animalPos;
                         distance = vlength toCommander in
                     if distance \<le> radius then
                       (case withinConeAngle (Finite (normalize toCommander)) animalForward angle of
                          Inl e \<Rightarrow> Inl e
                        | Inr inside \<Rightarrow>
                            Inr (if inside then results @ [CommanderRef] else results))
                     else Inr results)
                | NaNVector \<Rightarrow> Inr results)))"

text \<open>The position of the unit that \<open>animal.target\<close> points to.\<close>

definition targetPosition :: "target_ref \<Rightarrow> game \<Rightarrow> jsvec option" where
  "targetPosition target s =
     (case target of
        FighterRef i \<Rightarrow>
          (if i < length (g_fighters s) then Some (f_position (g_fighters s ! i)) else None)
      | CommanderRef \<Rightarrow> map_option (\<lambda>c. Finite (c_position c)) (g_commander s))"

text \<open>
  \<open>executeSwipeBehavior\<close>, which \<open>executeBehavior\<close> calls for the behaviours \<open>sweep\<close>,
  \<open>swipe\<close> and \<open>tuskSwipe\<close>. A target reference that names no unit is treated as no
  target.
\<close>

definition executeSwipeBehavior ::
  "animal \<Rightarrow> real \<Rightarrow> (nat \<Rightarrow> real) \<Rightarrow> game \<Rightarrow> js_error + animal \<times> game" where
  "executeSwipeBehavior a delta rnd s =
     (case Option.bind (a_target a) (\<lambda>target. targetPosition target s) of
        None \<Rightarrow> Inr (a, s)
      | Some targetPos \<Rightarrow>
          (let velocity =
                 (case (targetPos, a_position a) of
                    (Finite tp, Finite animalPos) \<Rightarrow>
                      (let direction = normalize (subVectors tp animalPos) in
                       Finite (multiplyScalar direction (a_moveSpeed a * 0.5 * delta)))
                  | _ \<Rightarrow> NaNVector);
               a1 = a\<lparr>a_velocity := velocity\<rparr>;
               attackAngle = pi / 2 in
           case getFightersInCone a1 (a_attackRange a1 * 1.5) attackAngle s of
             Inl e \<Rightarrow> Inl e
           | Inr attackTargets \<Rightarrow>
               if length attackTargets > 0 then
                 (case performAttack a1 attackTargets (a_attackPower a1 * 0.8) rnd s of
                    (applied, a2, s2) \<Rightarrow> Inr (a2, s2))
               else Inr (a1, s)))"

section \<open>Auxiliary notions and example states\<close>

definition rage_stats :: "animal \<Rightarrow> real \<times> real \<times> real" where
  "rage_stats a = (a_attackPower a, a_moveSpeed a, a_chargeSpeed a)"

text \<open>The rage statistics are the base values when calm and the base values times the
  enrage multipliers when enraged.\<close>

definition rage_inv :: "real \<times> real \<times> real \<Rightarrow> animal \<Rightarrow> bool" where
  "rage_inv base a =
     (case base of (ap, ms, cs) \<Rightarrow>
        if a_isEnraged a
        then a_attackPower a = ap * 1.3 \<and> a_moveSpeed a = ms * 1.2 \<and> a_chargeSpeed a = cs * 1.2
        else a_attackPower a = ap \<and> a_moveSpeed a = ms \<and> a_chargeSpeed a = cs)"

definition two_rage_cycles :: "rage_event list" where
  "two_rage_cycles =
     [RecordDamage 150, RageTick 0.016, RageTick 2,
      RecordDamage 150, RageTick 0.016, AttackMade 3, RageTick 2]"

text \<open>A battle five seconds old: a gorilla, one fighter a unit in front of it, the
  commander where he is created.\<close>

definition battle_example :: game where
  "battle_example =
     \<lparr>g_phase = Battle, g_fighters = [newFighter (Vector3 0 1 (-29))],
      g_animal = Some (gorilla (Vector3 0 1 (-30))), g_commander = Some newCommander,
      g_time = 5, g_score = Number 0, g_commanderDamageDealt = 0\<rparr>"

definition fallen :: "fighter \<Rightarrow> fighter" where
  "fallen f = f\<lparr>f_health := 0, f_state := Dead\<rparr>"

definition fighters_fallen_example :: game where
  "fighters_fallen_example =
     battle_example\<lparr>g_fighters := [fallen (newFighter (Vector3 0 1 (-29)))]\<rparr>"

definition no_fighters_example :: game where
  "no_fighters_example = battle_example\<lparr>g_fighters := []\<rparr>"

text \<open>The gorilla of \<open>battle_example\<close> strikes the fighter and the commander with base
  damage 25, every random draw being one half; half a second later it tries again.\<close>

definition struck_animal :: animal where
  "struck_animal = (gorilla (Vector3 0 1 (-30)))\<lparr>a_lastAttackTime := 5, a_attackCooldown := 1\<rparr>"

definition struck_state :: game where
  "struck_state = damageTargets [FighterRef 0, CommanderRef] 25 (\<lambda>k. 1 / 2) 0 battle_example"

text \<open>The force that \<open>applyFleeingForce\<close> puts into the accumulator of a fighter at
  \<open>pos\<close> when the animal is at \<open>animalPos\<close>.\<close>

definition fleeForceOf :: "vec3 \<Rightarrow> vec3 \<Rightarrow> vec3" where
  "fleeForceOf pos animalPos = multiplyScalar (normalize (subVectors pos animalPos)) (0.7 * 2)"

text \<open>The current formation is a property of \<open>this.formations\<close> whose call returns.\<close>

definition callable_formation :: "string \<Rightarrow> bool" where
  "callable_formation name \<longleftrightarrow>
     formations name \<noteq> None \<and> name \<notin> set throwing_when_called"

text \<open>
  Scenario B in the arrow formation. Three fighters: the first at health 9 of 50, twelve
  units from the commander, eight from the gorilla, four from its slot and one from the
  second fighter, so that all four steering forces act on it; the third is healthy and
  has, as the last of three in the arrow, a slot that is not finite.
\<close>

definition wedge_ai :: fighterAI where
  "wedge_ai = newFighterAI\<lparr>currentFormation := ''arrow''\<rparr>"

definition wedge_example :: game where
  "wedge_example =
     \<lparr>g_phase = Battle,
      g_fighters = [(newFighter (Vector3 0 1 (-12)))\<lparr>f_health := 9\<rparr>,
                    newFighter (Vector3 0 1 (-13)),
                    newFighter (Vector3 0 1 (-6))],
      g_animal = Some (gorilla (Vector3 0 1 (-20))),
      g_commander = Some newCommander,
      g_time = 5, g_score = Number 0, g_commanderDamageDealt = 0\<rparr>"

text \<open>A battle with a healthy fighter that the commander has just rallied.\<close>

definition rallied_example :: game where
  "rallied_example =
     \<lparr>g_phase = Battle,
      g_fighters = [(newFighter (Vector3 0 1 (-4)))\<lparr>f_commanderInfluence := True\<rparr>],
      g_animal = Some (gorilla (Vector3 0 1 (-5))),
      g_commander = Some (newCommander\<lparr>c_position := Vector3 0 1 0.5\<rparr>),
      g_time = 5, g_score = Number 0, g_commanderDamageDealt = 0\<rparr>"

section \<open>A battle session\<close>

text \<open>The health clamp of a fighter and of the commander: the health is not negative, and
  the state is \<open>dead\<close> exactly when the health is zero.\<close>

definition fighter_ok :: "fighter \<Rightarrow> bool" where
  "fighter_ok f \<longleftrightarrow> 0 \<le> f_health f \<and> (f_state f = Dead \<longleftrightarrow> f_health f = 0)"

definition commander_ok :: "commander \<Rightarrow> bool" where
  "commander_ok c \<longleftrightarrow> 0 \<le> c_health c \<and> (c_state c = Some Dead \<longleftrightarrow> c_health c = 0)"

definition units_ok :: "game \<Rightarrow> bool" where
  "units_ok s \<longleftrightarrow>
     list_all fighter_ok (g_fighters s)
     \<and> (case g_commander s of None \<Rightarrow> True | Some c \<Rightarrow> commander_ok c)"

definition animal_not_dead :: "game \<Rightarrow> bool" where
  "animal_not_dead s \<longleftrightarrow> (case g_animal s of None \<Rightarrow> True | Some a \<Rightarrow> a_state a \<noteq> Dead)"

text \<open>Who is dead in \<open>s\<close> is dead in \<open>s'\<close>.\<close>

definition dead_kept :: "game \<Rightarrow> game \<Rightarrow> bool" where
  "dead_kept s s' \<longleftrightarrow>
     length (g_fighters s') = length (g_fighters s)
     \<and> (\<forall>i < length (g_fighters s).
           f_state (g_fighters s ! i) = Dead \<longrightarrow> f_state (g_fighters s' ! i) = Dead)
     \<and> (Option.bind (g_commander s) c_state = Some Dead
          \<longrightarrow> Option.bind (g_commander s') c_state = Some Dead)"

text \<open>
  A write that touches no unit's health, no fighter's or commander's state and not the
  phase: movement, rotation, the rally flag, stun and knockback, the rage statistics, the
  choice of target and behaviour. Of the animal's state it may make \<open>searching\<close>, the one
  value that \<open>AnimalAI\<close> assigns.
\<close>

definition vitals_kept :: "game \<Rightarrow> game \<Rightarrow> bool" where
  "vitals_kept s s' \<longleftrightarrow>
     map f_health (g_fighters s') = map f_health (g_fighters s)
     \<and> map f_state (g_fighters s') = map f_state (g_fighters s)
     \<and> map_option c_health (g_commander s') = map_option c_health (g_commander s)
     \<and> Option.bind (g_commander s') c_state = Option.bind (g_commander s) c_state
     \<and> map_option a_health (g_animal s') = map_option a_health (g_animal s)
     \<and> map_option a_state (g_animal s')
          \<in> {map_option a_state (g_animal s), Some Searching}
     \<and> g_phase s' = g_phase s"

text \<open>The state in which \<open>startBattle\<close> opens the battle: at least one fighter, every
  unit as it was created.\<close>

definition battle_start :: "game \<Rightarrow> bool" where
  "battle_start s \<longleftrightarrow>
     g_phase s = Battle
     \<and> g_fighters s \<noteq> []
     \<and> list_all (\<lambda>f. f_health f = 50 \<and> f_state f = Idle) (g_fighters s)
     \<and> (case g_commander s of None \<Rightarrow> False
         | Some c \<Rightarrow> c_health c = 200 \<and> c_state c = None)
     \<and> (case g_animal s of None \<Rightarrow> False
         | Some a \<Rightarrow> a_health a = a_maxHealth a \<and> 0 < a_health a \<and> a_state a = Idle)"

text \<open>
  The writes that make up the ticks of \<open>updateBattlePhase\<close>, one at a time and in any
  order, while the phase is \<open>battle\<close>: the clock, the commander's attack, the fighter
  engine, an attack of the animal (any behaviour, any targets, any base damage), any write
  that keeps the vitals, and the end-of-battle check. A session is a sequence of such steps
  from a start state; it is over when the check has set the phase to \<open>result\<close>.
\<close>

inductive battle_step :: "game \<Rightarrow> game \<Rightarrow> bool" where
  clock: "g_phase s = Battle \<Longrightarrow> battle_step s (s\<lparr>g_time := g_time s + delta\<rparr>)"
| commander_attack: "g_phase s = Battle \<Longrightarrow> battle_step s (commanderAttack s)"
| fighter_engine:
    "g_phase s = Battle \<Longrightarrow> FighterAI_update ai delta mouseIsDown s = Inr (ai', s')
       \<Longrightarrow> battle_step s s'"
| animal_attack:
    "g_phase s = Battle \<Longrightarrow> g_animal s = Some a
       \<Longrightarrow> performAttack a targets baseDamage rnd s = (applied, a', s')
       \<Longrightarrow> battle_step s (s'\<lparr>g_animal := Some a'\<rparr>)"
| other_writes: "g_phase s = Battle \<Longrightarrow> vitals_kept s s' \<Longrightarrow> battle_step s s'"
| end_check: "g_phase s = Battle \<Longrightarrow> checkBattleEnd s = Inr s' \<Longrightarrow> battle_step s s'"

inductive reachable :: "game \<Rightarrow> bool" where
  start: "battle_start s \<Longrightarrow> reachable s"
| step: "reachable s \<Longrightarrow> battle_step s s' \<Longrightarrow> reachable s'"

text \<open>What the fighter engine leaves alone.\<close>

definition engine_kept :: "game \<Rightarrow> game \<Rightarrow> bool" where
  "engine_kept s s' \<longleftrightarrow>
     length (g_fighters s') = length (g_fighters s)
     \<and> (\<forall>k < length (g_fighters s).
           f_health (g_fighters s' ! k) = f_health (g_fighters s ! k)
           \<and> (f_state (g_fighters s' ! k) = Dead \<longleftrightarrow> f_state (g_fighters s ! k) = Dead))
     \<and> g_commander s' = g_commander s
     \<and> g_phase s' = g_phase s
     \<and> map_option a_state (g_animal s') = map_option a_state (g_animal s)"

text \<open>Two minutes into a battle: the commander has hit the gorilla 199 times and stands
  next to it, and so does a fighter.\<close>

definition pressed_example :: game where
  "pressed_example =
     \<lparr>g_phase = Battle, g_fighters = [newFighter (Vector3 0 1 (-2))],
      g_animal = Some ((gorilla (Vector3 0 1 (-1.5)))\<lparr>a_health := 5\<rparr>),
      g_commander = Some newCommander,
      g_time = 120, g_score = Number 0, g_commanderDamageDealt = 995\<rparr>"

text \<open>The gorilla of \<open>battle_example\<close> has struck the fighter and the commander at time
  5 and strikes them again at time 7.\<close>

definition second_blow :: game where
  "second_blow =
     (damageTargets [FighterRef 0, CommanderRef] 25 (\<lambda>k. 1 / 2) 0
        (struck_state\<lparr>g_animal := Some struck_animal, g_time := 7\<rparr>))
     \<lparr>g_animal := Some (struck_animal\<lparr>a_lastAttackTime := 7\<rparr>)\<rparr>"

section \<open>Theorems\<close>

subsection \<open>setFormation\<close>

text \<open>
  C10. \<open>setFormation\<close> accepts more than the four formation names: for the name
  \<open>constructor\<close>, which \<open>this.formations\<close> inherits from \<open>Object.prototype\<close>, it returns
  true and makes that name the current formation.
\<close>

theorem setFormation_inherited_name:
  "setFormation ''constructor'' newFighterAI
     = (True, newFighterAI\<lparr>currentFormation := ''constructor''\<rparr>)
   \<and> ''constructor'' \<notin> set known_formations
   \<and> currentFormation (snd (setFormation ''constructor'' newFighterAI))
       \<noteq> currentFormation newFighterAI"
  by (simp add: setFormation_def formations_def object_prototype_properties_def
      known_formations_def newFighterAI_def)


lemma setFormation_known:
  "name \<in> set known_formations \<Longrightarrow> setFormation name ai = (True, ai\<lparr>currentFormation := name\<rparr>)"
  by (auto simp: setFormation_def formations_def known_formations_def)

lemma setFormation_unknown:
  "name \<notin> set known_formations \<Longrightarrow> name \<notin> set object_prototype_properties \<Longrightarrow>
     setFormation name ai = (False, ai)"
  by (simp add: setFormation_def formations_def known_formations_def)

subsection \<open>Degenerate formation counts\<close>

text \<open>
  C5. For \<open>totalCount = 1\<close> the line formation divides by zero: the slot of the only
  fighter is \<open>(0 / 0 - 0.5) * lineWidth\<close> along the perpendicular, which is not a finite
  position. There is no guard.
\<close>

theorem lineFormation_single_fighter_not_finite:
  "slotPosition Line 0 1 center facing = None"
  by (simp add: slotPosition_def lineFormation_def js_div_def)

text \<open>The other formations at the degenerate counts: the leader of the arrow is returned
  before any division, a line of two or more is finite, and so are circle and scatter for
  a roster that is not empty.\<close>

lemma arrowFormation_leader:
  "slotPosition Arrow 0 totalCount center facing = Some (vadd center (multiplyScalar facing 3))"
  by (simp add: slotPosition_def arrowFormation_def)

lemma lineFormation_finite:
  "2 \<le> totalCount \<Longrightarrow> \<exists>p. slotPosition Line index totalCount center facing = Some p"
  by (simp add: slotPosition_def lineFormation_def js_div_def Let_def)

lemma circle_scatter_finite:
  "1 \<le> totalCount \<Longrightarrow> kind = Circle \<or> kind = Scatter \<Longrightarrow>
     \<exists>p. slotPosition kind index totalCount center facing = Some p"
  by (auto simp: slotPosition_def circleFormation_def scatterFormation_def js_div_def Let_def)

subsection \<open>End of battle\<close>

text \<open>
  C6, as the code has it. With no fighter placed, the all-fighters-dead condition does not
  fire: the check leaves the battle running unless the animal's health or the commander's
  is down to zero. With at least one fighter placed and all of them dead, the check ends
  the battle as a loss although the commander is alive.
\<close>

theorem checkBattleEnd_fighters_boundary:
  assumes "g_animal s = Some a" and "a_health a > 0"
    and "g_commander s = Some c" and "c_health c > 0"
  shows "(g_fighters s = [] \<longrightarrow> checkBattleEnd s = Inr s)
       \<and> (g_fighters s \<noteq> [] \<and> (\<forall>f \<in> set (g_fighters s). f_state f = Dead) \<longrightarrow>
            checkBattleEnd s = endBattle False s
          \<and> (\<exists>s'. checkBattleEnd s = Inr s' \<and> g_phase s' = Result))"
  using assms by (auto simp: checkBattleEnd_def endBattle_def list_all_iff)

theorem checkBattleEnd_fighters_boundary_witness:
  "checkBattleEnd no_fighters_example = Inr no_fighters_example
   \<and> checkBattleEnd fighters_fallen_example = endBattle False fighters_fallen_example
   \<and> (\<exists>s'. checkBattleEnd fighters_fallen_example = Inr s' \<and> g_phase s' = Result)"
proof -
  let ?a = "gorilla (Vector3 0 1 (-30))"
  have ha: "a_health ?a > 0" and hc: "c_health newCommander > 0"
    by (simp_all add: gorilla_def newCommander_def)
  have n: "g_animal no_fighters_example = Some ?a"
      "g_commander no_fighters_example = Some newCommander"
      "g_fighters no_fighters_example = []"
    by (simp_all add: no_fighters_example_def battle_example_def)
  have f: "g_animal fighters_fallen_example = Some ?a"
      "g_commander fighters_fallen_example = Some newCommander"
      "g_fighters fighters_fallen_example \<noteq> []"
      "\<forall>f \<in> set (g_fighters fighters_fallen_example). f_state f = Dead"
    by (simp_all add: fighters_fallen_example_def battle_example_def fallen_def)
  show ?thesis
    using checkBattleEnd_fighters_boundary [OF n(1) ha n(2) hc]
      checkBattleEnd_fighters_boundary [OF f(1) ha f(2) hc] n(3) f(3) f(4)
    by blast
qed

text \<open>The claim as it is written fails: one fighter was placed and is dead, the commander
  has his full health, the animal is alive, and the check ends the battle.\<close>

theorem checkBattleEnd_commander_alive_counterexample:
  "list_all (\<lambda>f. f_state f = Dead) (g_fighters fighters_fallen_example)
   \<and> map_option c_health (g_commander fighters_fallen_example) = Some 200
   \<and> g_phase fighters_fallen_example = Battle
   \<and> map_sum id g_phase (checkBattleEnd fighters_fallen_example) = Inr Result"
  by (simp add: checkBattleEnd_def endBattle_def fighters_fallen_example_def
      battle_example_def gorilla_def newCommander_def newFighter_def fallen_def js_div_def)

subsection \<open>Enrage symmetry\<close>

lemma rage_step_inv: "rage_inv base a \<Longrightarrow> rage_inv base (rage_step e a)"
  by (cases e; cases base)
     (auto simp: rage_inv_def updateRageState_def recordDamageToAnimal_def Let_def)

lemma rage_run_inv: "rage_inv base a \<Longrightarrow> rage_inv base (rage_run es a)"
  by (induction es arbitrary: a) (simp_all add: rage_step_inv)

text \<open>
  C2. Start from a calm animal and let any sequence of damage reports, rage updates and
  attacks go by, with any number of enrage and de-enrage transitions in it. Whenever the
  animal is enraged, its attack power is the original one times 1.3 and its two speeds the
  original ones times 1.2 (the multipliers are in once, however many cycles went before);
  whenever it is calm, the three are the original values.
\<close>

theorem enrage_symmetry:
  assumes "\<not> a_isEnraged a"
  shows "(a_isEnraged (rage_run es a) \<longrightarrow>
            a_attackPower (rage_run es a) = a_attackPower a * 1.3
          \<and> a_moveSpeed (rage_run es a) = a_moveSpeed a * 1.2
          \<and> a_chargeSpeed (rage_run es a) = a_chargeSpeed a * 1.2)
       \<and> (\<not> a_isEnraged (rage_run es a) \<longrightarrow>
            a_attackPower (rage_run es a) = a_attackPower a
          \<and> a_moveSpeed (rage_run es a) = a_moveSpeed a
          \<and> a_chargeSpeed (rage_run es a) = a_chargeSpeed a)"
proof -
  have "rage_inv (rage_stats a) a"
    using assms by (simp add: rage_inv_def rage_stats_def)
  then have "rage_inv (rage_stats a) (rage_run es a)"
    by (rule rage_run_inv)
  then show ?thesis
    by (simp add: rage_inv_def rage_stats_def split: if_splits)
qed

theorem enrage_symmetry_witness:
  "\<not> a_isEnraged (gorilla zeroVector)
   \<and> a_isEnraged (rage_run (take 2 two_rage_cycles) (gorilla zeroVector))
   \<and> a_attackPower (rage_run (take 2 two_rage_cycles) (gorilla zeroVector)) = 25 * 1.3
   \<and> \<not> a_isEnraged (rage_run two_rage_cycles (gorilla zeroVector))
   \<and> a_attackPower (rage_run two_rage_cycles (gorilla zeroVector)) = 25
   \<and> a_moveSpeed (rage_run two_rage_cycles (gorilla zeroVector)) = 8
   \<and> a_chargeSpeed (rage_run two_rage_cycles (gorilla zeroVector)) = 12"
proof -
  have n: "\<not> a_isEnraged (gorilla zeroVector)"
    by (simp add: gorilla_def)
  have e2: "a_isEnraged (rage_run (take 2 two_rage_cycles) (gorilla zeroVector))"
    by (simp add: two_rage_cycles_def gorilla_def updateRageState_def
        recordDamageToAnimal_def Let_def)
  have e7: "\<not> a_isEnraged (rage_run two_rage_cycles (gorilla zeroVector))"
    by (simp add: two_rage_cycles_def gorilla_def updateRageState_def
        recordDamageToAnimal_def Let_def)
  show ?thesis
    using n e2 e7 enrage_symmetry [OF n, of "take 2 two_rage_cycles"]
      enrage_symmetry [OF n, of two_rage_cycles]
    by (simp add: gorilla_def)
qed

subsection \<open>Attack cooldown\<close>

text \<open>
  C3. A call of \<open>performAttack\<close> made when less than \<open>attackCooldown\<close> seconds of game
  time have passed since \<open>lastAttackTime\<close> returns false and leaves the animal, the
  fighters and the commander as they were. So after a call that went through, a second
  call made less than the animal's \<open>attackCooldown\<close> later, whatever its targets, applies no
  damage: of the two calls exactly the first has applied damage.
\<close>

theorem performAttack_cooldown_gate:
  "(g_time s - a_lastAttackTime a < a_attackCooldown a \<longrightarrow>
      performAttack a targets baseDamage rnd s = (False, a, s))
   \<and> (performAttack a targets baseDamage rnd s = (True, a1, s1)
        \<and> g_time s2 - g_time s < a_attackCooldown a1 \<longrightarrow>
      performAttack a1 targets2 baseDamage2 rnd2 s2 = (False, a1, s2))"
  by (auto simp: performAttack_def split: if_splits)

theorem performAttack_cooldown_gate_witness:
  "performAttack (gorilla (Vector3 0 1 (-30))) [FighterRef 0, CommanderRef] 25 (\<lambda>k. 1 / 2)
       battle_example = (True, struck_animal, struck_state)
   \<and> f_health (g_fighters struck_state ! 0) = 25
   \<and> performAttack struck_animal [FighterRef 0, CommanderRef] 25 (\<lambda>k. 1 / 2)
       (struck_state\<lparr>g_time := 5.5\<rparr>) = (False, struck_animal, struck_state\<lparr>g_time := 5.5\<rparr>)
   \<and> f_health (g_fighters (struck_state\<lparr>g_time := 5.5\<rparr>) ! 0) = 25"
proof -
  let ?g = "gorilla (Vector3 0 1 (-30))"
  let ?s2 = "struck_state\<lparr>g_time := 5.5\<rparr>"
  have first: "performAttack ?g [FighterRef 0, CommanderRef] 25 (\<lambda>k. 1 / 2) battle_example
      = (True, struck_animal, struck_state)"
    by (simp add: performAttack_def struck_animal_def struck_state_def gorilla_def
        battle_example_def)
  have early: "g_time ?s2 - g_time battle_example < a_attackCooldown struck_animal"
    by (simp add: struck_animal_def battle_example_def)
  have early': "g_time ?s2 - a_lastAttackTime struck_animal < a_attackCooldown struck_animal"
    by (simp add: struck_animal_def)
  have health: "f_health (g_fighters struck_state ! 0) = 25"
    by (simp add: struck_state_def battle_example_def damageTarget_def hitFighter_def
        hitCommander_def attackDamage_def newFighter_def newCommander_def Let_def)
  have "performAttack struck_animal [FighterRef 0, CommanderRef] 25 (\<lambda>k. 1 / 2) ?s2
      = (False, struck_animal, ?s2)"
    using performAttack_cooldown_gate
      [of battle_example ?g "[FighterRef 0, CommanderRef]" 25 "\<lambda>k. 1 / 2"
          struck_animal struck_state ?s2 "[FighterRef 0, CommanderRef]" 25 "\<lambda>k. 1 / 2"]
      first early
    by blast
  moreover have "performAttack struck_animal [FighterRef 0, CommanderRef] 25 (\<lambda>k. 1 / 2) ?s2
      = (False, struck_animal, ?s2)"
    using performAttack_cooldown_gate
      [of ?s2 struck_animal "[FighterRef 0, CommanderRef]" 25 "\<lambda>k. 1 / 2"] early'
    by blast
  ultimately show ?thesis
    using first health by simp
qed

subsection \<open>One cooldown charge per attack\<close>

text \<open>
  C4. A call of \<open>performAttack\<close> that passes the cooldown check returns true and sets the
  attacker's \<open>lastAttackTime\<close> to the game time of the call, once, after the loop over the
  targets: the animal it leaves behind is the same for any list of targets, the empty one
  included, so a hit on several targets costs the one cooldown cycle of a single hit.
\<close>

theorem performAttack_single_charge:
  assumes "\<not> g_time s - a_lastAttackTime a < a_attackCooldown a"
  shows "performAttack a targets baseDamage rnd s =
           (True,
            a\<lparr>a_lastAttackTime := g_time s,
              a_attackCooldown := (if a_isEnraged a then 0.7 else 1.0)\<rparr>,
            damageTargets targets baseDamage rnd 0 s)
       \<and> fst (snd (performAttack a targets baseDamage rnd s))
           = fst (snd (performAttack a [] baseDamage rnd s))
       \<and> g_time (snd (snd (performAttack a targets baseDamage rnd s))) = g_time s"
proof -
  have "g_time (damageTargets ts baseDamage rnd k s') = g_time s'" for ts k s'
    by (induction ts arbitrary: k s')
       (simp_all add: damageTarget_def Let_def split: target_ref.splits option.splits)
  then show ?thesis
    using assms by (simp add: performAttack_def)
qed

theorem performAttack_single_charge_witness:
  "1 < length [FighterRef 0, CommanderRef]
   \<and> performAttack (gorilla (Vector3 0 1 (-30))) [FighterRef 0, CommanderRef] 25 (\<lambda>k. 1 / 2)
       battle_example = (True, struck_animal, struck_state)
   \<and> a_lastAttackTime struck_animal = g_time battle_example
   \<and> f_health (g_fighters struck_state ! 0) = 25
   \<and> map_option c_health (g_commander struck_state) = Some 175"
proof -
  let ?g = "gorilla (Vector3 0 1 (-30))"
  have ready: "\<not> g_time battle_example - a_lastAttackTime ?g < a_attackCooldown ?g"
    by (simp add: battle_example_def gorilla_def)
  have calm: "(?g\<lparr>a_lastAttackTime := g_time battle_example,
        a_attackCooldown := (if a_isEnraged ?g then 0.7 else 1.0)\<rparr>) = struck_animal"
    by (simp add: struck_animal_def gorilla_def battle_example_def)
  have health: "f_health (g_fighters struck_state ! 0) = 25"
      "map_option c_health (g_commander struck_state) = Some 175"
    by (simp_all add: struck_state_def battle_example_def damageTarget_def hitFighter_def
        hitCommander_def attackDamage_def newFighter_def newCommander_def Let_def)
  show ?thesis
    using performAttack_single_charge
      [OF ready, of "[FighterRef 0, CommanderRef]" 25 "\<lambda>k. 1 / 2"] calm health
    by (simp add: struck_state_def struck_animal_def battle_example_def)
qed

subsection \<open>Cone attack\<close>

lemma fightersInCone_throws:
  assumes "f \<in> set fs" and "f_state f \<noteq> Dead"
    and "f_position f = Finite pos" and "a_position a = Finite animalPos"
    and "vlength (subVectors pos animalPos) \<le> radius"
  shows "fightersInCone a radius angle animalForward fs i results = Inl TypeError"
  using assms
  by (induction fs arbitrary: i results)
     (auto simp: withinConeAngle_def Math_clamp_def Let_def split: jsvec.splits)

lemma getFightersInCone_throws:
  assumes "f \<in> set (g_fighters s)" and "f_state f \<noteq> Dead"
    and "f_position f = Finite pos" and "a_position a = Finite animalPos"
    and "vlength (subVectors pos animalPos) \<le> radius"
  shows "getFightersInCone a radius angle s = Inl TypeError"
  using fightersInCone_throws [OF assms] by (simp add: getFightersInCone_def)

text \<open>A living fighter whose position is NaN is not skipped by the distance test, and
  the query throws as well.\<close>

lemma fightersInCone_throws_nan:
  assumes "f \<in> set fs" and "f_state f \<noteq> Dead" and "f_position f = NaNVector"
  shows "fightersInCone a radius angle animalForward fs i results = Inl TypeError"
  using assms
  by (induction fs arbitrary: i results)
     (auto simp: withinConeAngle_def Math_clamp_def Let_def split: jsvec.splits)

text \<open>When the cone query does return, nobody was in reach and the list is empty: a cone
  attack never hits.\<close>

lemma fightersInCone_returns_nobody:
  "fightersInCone a radius angle animalForward fs i results = Inr found \<Longrightarrow> found = results"
  by (induction fs arbitrary: i results)
     (auto simp: withinConeAngle_def Math_clamp_def Let_def split: if_splits jsvec.splits)

lemma getFightersInCone_returns_nobody:
  "getFightersInCone a radius angle s = Inr found \<Longrightarrow> found = []"
  by (auto simp: getFightersInCone_def withinConeAngle_def Math_clamp_def Let_def
      split: sum.splits option.splits if_splits jsvec.splits
      dest: fightersInCone_returns_nobody)

text \<open>
  C7. The cone behaviour does not complete normally once a unit is in reach. In
  \<open>battle_example\<close> the gorilla targets the fighter one unit away (the reach of the sweep is
  three units); \<open>executeSwipeBehavior\<close> throws a TypeError out of \<open>getFightersInCone\<close>.
\<close>

theorem executeSwipeBehavior_throws:
  "executeSwipeBehavior ((gorilla (Vector3 0 1 (-30)))\<lparr>a_target := Some (FighterRef 0)\<rparr>)
     0.016 rnd battle_example = Inl TypeError"
proof -
  let ?f = "newFighter (Vector3 0 1 (-29))"
  let ?a = "(gorilla (Vector3 0 1 (-30)))\<lparr>a_target := Some (FighterRef 0)\<rparr>"
  have "getFightersInCone (?a\<lparr>a_velocity := v\<rparr>) (a_attackRange ?a * 1.5) (pi / 2)
      battle_example = Inl TypeError" for v
  proof (rule getFightersInCone_throws [where f = ?f])
    show "?f \<in> set (g_fighters battle_example)"
      by (simp add: battle_example_def)
    show "f_state ?f \<noteq> Dead"
      by (simp add: newFighter_def)
    show "f_position ?f = Finite (Vector3 0 1 (-29))"
      by (simp add: newFighter_def)
    show "a_position (?a\<lparr>a_velocity := v\<rparr>) = Finite (Vector3 0 1 (-30))"
      by (simp add: gorilla_def)
    show "vlength (subVectors (Vector3 0 1 (-29)) (Vector3 0 1 (-30))) \<le> a_attackRange ?a * 1.5"
      by (simp add: gorilla_def vlength_def lengthSq_def subVectors_def)
  qed
  then show ?thesis
    by (simp add: executeSwipeBehavior_def targetPosition_def battle_example_def Let_def
        gorilla_def newFighter_def)
qed

subsection \<open>Flee override\<close>

lemma applyTargetingForce_fields:
  assumes "applyTargetingForce ai s (f, acc) = (f', acc')"
  shows "f_position f' = f_position f" and "f_health f' = f_health f"
    and "f_maxHealth f' = f_maxHealth f"
  using assms
  by (auto simp: applyTargetingForce_def Let_def split: option.splits if_splits jsvec.splits)

lemma applyCommanderInfluence_fields:
  assumes "applyCommanderInfluence md s (ai, f, acc) = (ai', f', acc')"
  shows "f_position f' = f_position f" and "f_health f' = f_health f"
    and "f_maxHealth f' = f_maxHealth f" and "f_state f' = f_state f"
    and "currentFormation ai' = currentFormation ai"
    and "formationCenter ai' = formationCenter ai"
    and "formationDirection ai' = formationDirection ai"
    and "g_commander s \<noteq> None \<Longrightarrow> \<not> f_commanderInfluence f'"
  using assms
  by (auto simp: applyCommanderInfluence_def Let_def
      split: option.splits if_splits jsvec.splits)

lemma applyFleeingForce_animal:
  "g_animal s = Some a \<Longrightarrow> a_position a = Finite animalPos \<Longrightarrow> f_position f = Finite pos \<Longrightarrow>
     applyFleeingForce s (f, acc) = (f\<lparr>f_state := Fleeing\<rparr>, Finite (fleeForceOf pos animalPos))"
  by (simp add: applyFleeingForce_def fleeForceOf_def Let_def)

lemma moveFighter_fields:
  "f_state (moveFighter delta f acc) = f_state f"
  "f_forceAccumulator (moveFighter delta f acc) = acc"
  "f_commanderInfluence (moveFighter delta f acc) = f_commanderInfluence f"
  "f_health (moveFighter delta f acc) = f_health f"
  by (simp_all add: moveFighter_def Let_def split: jsvec.splits)

lemma handleFighterAttacks_fields:
  assumes "handleFighterAttacks time (f, animal) = (f', animal')"
  shows "f_state f' = f_state f" and "f_forceAccumulator f' = f_forceAccumulator f"
    and "f_health f' = f_health f"
    and "f_commanderInfluence f' = f_commanderInfluence f"
    and "f_state f \<noteq> Attacking \<Longrightarrow> animal' = animal"
    and "map_option a_position animal' = map_option a_position animal"
    and "f_position f' = f_position f"
  using assms
  by (auto simp: handleFighterAttacks_def Let_def
      split: option.splits if_splits jsvec.splits)

lemma handleFighterAttacks_damage:
  assumes "handleFighterAttacks time (f, Some a) = (f', animal')"
    and "\<not> f_commanderInfluence f"
  shows "animal' = Some a \<or> animal' = Some (a\<lparr>a_health := a_health a - 1\<rparr>)"
  using assms
  by (auto simp: handleFighterAttacks_def Let_def
      split: option.splits if_splits jsvec.splits)

lemma updateFighter_cases:
  assumes "updateFighter j delta md (ai, s) = Inr (ai', s')"
  obtains (skip) "f_state (g_fighters s ! j) = Dead" "ai' = ai" "s' = s"
  | (run) acc1 f2 acc2 ai4 f4 acc4 f5 acc5 f7 animal7 where
      "f_state (g_fighters s ! j) \<noteq> Dead"
      "applyFormationForce ai j s (g_fighters s ! j) (Finite zeroVector) = Inr acc1"
      "applyTargetingForce ai s (g_fighters s ! j, acc1) = (f2, acc2)"
      "applyCommanderInfluence md s (ai, f2, applyAvoidanceForce j s f2 acc2) = (ai4, f4, acc4)"
      "(if f_health f4 < f_maxHealth f4 * 0.2 then applyFleeingForce s (f4, acc4) else (f4, acc4))
         = (f5, acc5)"
      "handleFighterAttacks (g_time s) (moveFighter delta f5 acc5, g_animal s) = (f7, animal7)"
      "ai' = ai4"
      "s' = s\<lparr>g_fighters := (g_fighters s)[j := f7], g_animal := animal7\<rparr>"
  using assms
  by (auto simp: updateFighter_def Let_def
      split: sum.splits prod.splits if_splits)

lemma updateFighter_flees:
  assumes an: "g_animal s = Some a" and ap: "a_position a = Finite animalPos"
    and i: "i < length (g_fighters s)"
    and alive: "f_state (g_fighters s ! i) \<noteq> Dead"
    and fp: "f_position (g_fighters s ! i) = Finite pos"
    and low: "f_health (g_fighters s ! i) < f_maxHealth (g_fighters s ! i) * 0.2"
    and run: "updateFighter i delta md (ai, s) = Inr (ai', s')"
  shows "f_state (g_fighters s' ! i) = Fleeing
       \<and> f_forceAccumulator (g_fighters s' ! i) = Finite (fleeForceOf pos animalPos)"
  using run
proof (cases rule: updateFighter_cases)
  case skip
  with alive show ?thesis by simp
next
  case (run acc1 f2 acc2 ai4 f4 acc4 f5 acc5 f7 animal7)
  let ?f = "g_fighters s ! i"
  have f4: "f_position f4 = Finite pos" "f_health f4 = f_health ?f"
      "f_maxHealth f4 = f_maxHealth ?f"
    using applyTargetingForce_fields [OF run(3)] applyCommanderInfluence_fields [OF run(4)] fp
    by simp_all
  have "applyFleeingForce s (f4, acc4) = (f5, acc5)"
    using run(5) low f4 by simp
  then have f5: "f5 = f4\<lparr>f_state := Fleeing\<rparr>" "acc5 = Finite (fleeForceOf pos animalPos)"
    using applyFleeingForce_animal [OF an ap f4(1), of acc4] by simp_all
  have f7: "f_state f7 = Fleeing" "f_forceAccumulator f7 = acc5"
    using handleFighterAttacks_fields [OF run(6)] f5 by (simp_all add: moveFighter_fields)
  show ?thesis
    using f7 f5 i run(8) by simp
qed

lemma updateFighter_frame:
  assumes "updateFighter j delta md (ai, s) = Inr (ai', s')"
  shows "length (g_fighters s') = length (g_fighters s)
       \<and> (\<forall>k. k \<noteq> j \<longrightarrow> g_fighters s' ! k = g_fighters s ! k)
       \<and> map_option a_position (g_animal s') = map_option a_position (g_animal s)
       \<and> currentFormation ai' = currentFormation ai
       \<and> formationCenter ai' = formationCenter ai
       \<and> formationDirection ai' = formationDirection ai"
  using assms
proof (cases rule: updateFighter_cases)
  case skip
  then show ?thesis by simp
next
  case (run acc1 f2 acc2 ai4 f4 acc4 f5 acc5 f7 animal7)
  show ?thesis
    using run(7,8) handleFighterAttacks_fields(6) [OF run(6)]
      applyCommanderInfluence_fields(5,6,7) [OF run(4)]
    by simp
qed

lemma forEachFighter_frame:
  assumes "forEachFighter js delta md (ai, s) = Inr (ai', s')"
  shows "length (g_fighters s') = length (g_fighters s)
       \<and> (k \<notin> set js \<longrightarrow> g_fighters s' ! k = g_fighters s ! k)
       \<and> map_option a_position (g_animal s') = map_option a_position (g_animal s)"
  using assms
proof (induction js arbitrary: ai s)
  case Nil
  then show ?case by simp
next
  case (Cons j js)
  from Cons.prems obtain ai1 s1 where
    step: "updateFighter j delta md (ai, s) = Inr (ai1, s1)"
    and rest: "forEachFighter js delta md (ai1, s1) = Inr (ai', s')"
    by (auto split: sum.splits)
  show ?case
    using Cons.IH [OF rest] updateFighter_frame [OF step]
    by auto
qed

lemma forEachFighter_flees:
  assumes "forEachFighter js delta md (ai, s) = Inr (ai', s')"
    and "i \<in> set js" and "distinct js"
    and "g_animal s = Some a" and "a_position a = Finite animalPos"
    and "i < length (g_fighters s)"
    and "f_state (g_fighters s ! i) \<noteq> Dead"
    and "f_position (g_fighters s ! i) = Finite pos"
    and "f_health (g_fighters s ! i) < f_maxHealth (g_fighters s ! i) * 0.2"
  shows "f_state (g_fighters s' ! i) = Fleeing
       \<and> f_forceAccumulator (g_fighters s' ! i) = Finite (fleeForceOf pos animalPos)"
  using assms
proof (induction js arbitrary: ai s a)
  case Nil
  then show ?case by simp
next
  case (Cons j js)
  from Cons.prems(1) obtain ai1 s1 where
    step: "updateFighter j delta md (ai, s) = Inr (ai1, s1)"
    and rest: "forEachFighter js delta md (ai1, s1) = Inr (ai', s')"
    by (auto split: sum.splits)
  show ?case
  proof (cases "j = i")
    case True
    have "i \<notin> set js" using Cons.prems(3) True by simp
    then have "g_fighters s' ! i = g_fighters s1 ! i"
      using forEachFighter_frame [OF rest, of i] by simp
    then show ?thesis
      using updateFighter_flees [OF Cons.prems(4,5,6,7,8,9) step [unfolded True]] by simp
  next
    case False
    have same: "g_fighters s1 ! i = g_fighters s ! i"
        "length (g_fighters s1) = length (g_fighters s)"
      using updateFighter_frame [OF step] False by simp_all
    obtain a1 where a1: "g_animal s1 = Some a1" "a_position a1 = Finite animalPos"
      using updateFighter_frame [OF step] Cons.prems(4,5) by (cases "g_animal s1") auto
    show ?thesis
      using Cons.IH [OF rest _ _ a1] Cons.prems False same by simp
  qed
qed

text \<open>The update of a fighter throws only where the call of the current formation does.\<close>

lemma getFormationPosition_callable:
  "callable_formation (currentFormation ai) \<Longrightarrow> \<exists>slot. getFormationPosition ai i s = Inr slot"
  by (auto simp: callable_formation_def getFormationPosition_def
      split: option.splits property_value.splits)

lemma updateFighter_returns:
  assumes "callable_formation (currentFormation ai)"
  shows "\<exists>r. updateFighter i delta md (ai, s) = Inr r"
proof -
  obtain slot where "getFormationPosition ai i s = Inr slot"
    using getFormationPosition_callable [OF assms] by blast
  then have "\<exists>acc1. applyFormationForce ai i s (g_fighters s ! i) (Finite zeroVector) = Inr acc1"
    by (cases slot; cases "f_position (g_fighters s ! i)")
       (simp_all add: applyFormationForce_def Let_def)
  then obtain acc1 where
    "applyFormationForce ai i s (g_fighters s ! i) (Finite zeroVector) = Inr acc1"
    by blast
  then show ?thesis
    by (simp add: updateFighter_def Let_def split: prod.splits)
qed

lemma forEachFighter_returns:
  assumes "callable_formation (currentFormation ai)"
  shows "\<exists>r. forEachFighter js delta md (ai, s) = Inr r"
  using assms
proof (induction js arbitrary: ai s)
  case Nil
  then show ?case by simp
next
  case (Cons j js)
  obtain ai1 s1 where step: "updateFighter j delta md (ai, s) = Inr (ai1, s1)"
    using updateFighter_returns [OF Cons.prems] by fastforce
  have "callable_formation (currentFormation ai1)"
    using updateFighter_frame [OF step] Cons.prems by simp
  then have "\<exists>r. forEachFighter js delta md (ai1, s1) = Inr r"
    by (rule Cons.IH)
  then show ?case
    using step by simp
qed

lemma vlength_zero_iff: "vlength v = 0 \<longleftrightarrow> v = zeroVector"
proof -
  have "vx v * vx v + vy v * vy v + vz v * vz v = 0 \<longleftrightarrow> vx v = 0 \<and> vy v = 0 \<and> vz v = 0"
    by (smt (verit) mult_eq_0_iff zero_le_square)
  then show ?thesis
    by (cases v) (simp add: vlength_def lengthSq_def zeroVector_def)
qed

lemma normalize_positive_multiple:
  assumes "v \<noteq> zeroVector" and "0 < c"
  shows "\<exists>k>0. multiplyScalar (normalize v) c = multiplyScalar v k"
proof -
  have "0 \<le> lengthSq v"
    by (simp add: lengthSq_def)
  then have "0 \<le> vlength v"
    by (simp add: vlength_def)
  then have "0 < vlength v"
    using assms(1) vlength_zero_iff [of v] by simp
  then have "0 < c / vlength v" and "multiplyScalar (normalize v) c = multiplyScalar v (c / vlength v)"
    using assms(2) by (simp_all add: normalize_def multiplyScalar_def)
  then show ?thesis by blast
qed

text \<open>
  C8. In a battle with an animal, take a living fighter whose health is below 20% of its
  maximum at the start of the tick, the fighter and the animal standing at positions that
  are numbers. Then \<open>FighterAI.update\<close> completes the tick (whatever becomes of the other
  fighters, and in any formation), and after it that fighter's state is \<open>fleeing\<close> and its
  force accumulator is the unit vector from the animal's position to the fighter's, times
  1.4: a positive multiple of the vector from the animal to the fighter unless the two
  positions coincide. The formation, target, separation and commander forces do not enter
  it.
\<close>

theorem flee_override:
  assumes battle: "g_phase s = Battle"
    and an: "g_animal s = Some a" and ap: "a_position a = Finite animalPos"
    and i: "i < length (g_fighters s)"
    and alive: "f_state (g_fighters s ! i) \<noteq> Dead"
    and fp: "f_position (g_fighters s ! i) = Finite pos"
    and low: "f_health (g_fighters s ! i) < f_maxHealth (g_fighters s ! i) * 0.2"
    and callable: "callable_formation (currentFormation ai)"
  shows "\<exists>ai' s'. FighterAI_update ai delta mouseIsDown s = Inr (ai', s')
       \<and> f_state (g_fighters s' ! i) = Fleeing
       \<and> f_forceAccumulator (g_fighters s' ! i)
           = Finite (multiplyScalar (normalize (subVectors pos animalPos)) (0.7 * 2))
       \<and> (pos \<noteq> animalPos \<longrightarrow>
            (\<exists>k>0. f_forceAccumulator (g_fighters s' ! i)
               = Finite (multiplyScalar (subVectors pos animalPos) k)))"
proof -
  have "callable_formation (currentFormation (updateFormationCenter ai s))"
    using callable by (simp add: updateFormationCenter_def Let_def split: option.splits)
  then obtain ai' s' where run: "forEachFighter [0..<length (g_fighters s)] delta mouseIsDown
      (updateFormationCenter ai s, s) = Inr (ai', s')"
    using forEachFighter_returns by (metis old.prod.exhaust)
  then have upd: "FighterAI_update ai delta mouseIsDown s = Inr (ai', s')"
    using battle by (simp add: FighterAI_update_def)
  have fl: "f_state (g_fighters s' ! i) = Fleeing
       \<and> f_forceAccumulator (g_fighters s' ! i) = Finite (fleeForceOf pos animalPos)"
    using forEachFighter_flees [OF run _ _ an ap i alive fp low] i by simp
  have "\<exists>k>0. fleeForceOf pos animalPos = multiplyScalar (subVectors pos animalPos) k"
    if "pos \<noteq> animalPos"
  proof -
    have "subVectors pos animalPos \<noteq> zeroVector"
      using that by (cases pos; cases animalPos) (simp add: subVectors_def zeroVector_def)
    then show ?thesis
      using normalize_positive_multiple [of _ "0.7 * 2"] by (simp add: fleeForceOf_def)
  qed
  then show ?thesis
    using upd fl by (auto simp: fleeForceOf_def)
qed

lemmas eval_defs = FighterAI_update_def updateFormationCenter_def
      newFighterAI_def newCommander_def forwardAt_def updateFighter_def newFighter_def
      applyFormationForce_def getFormationPosition_def formations_def slotPosition_def
      circleFormation_def js_div_def vadd_def multiplyScalar_def subVectors_def
      applyTargetingForce_def gorilla_def applyAvoidanceForce_def addForce_def
      applyCommanderInfluence_def applyFleeingForce_def zeroVector_def normalize_def
      moveFighter_def handleFighterAttacks_def distanceTo_def lengthSq_def Let_def

lemma vlength_z: "vlength (Vector3 0 0 z) = \<bar>z\<bar>"
  by (simp add: vlength_def lengthSq_def)

text \<open>
  A fighter that is lost. A living fighter that is not badly injured and whose formation
  slot is not finite leaves the tick with a NaN force and a NaN position, and the loop goes
  on: the third of three fighters in the arrow is such a one.
\<close>

lemma nan_force_stays:
  "snd (applyTargetingForce ai s (f, NaNVector)) = NaNVector"
  "applyAvoidanceForce j s f NaNVector = NaNVector"
  "snd (snd (applyCommanderInfluence md s (ai, f, NaNVector))) = NaNVector"
  by (auto simp: applyTargetingForce_def applyAvoidanceForce_def applyCommanderInfluence_def
      addForce_def Let_def split: option.splits jsvec.splits)

lemma updateFighter_lost:
  assumes alive: "f_state (g_fighters s ! k) \<noteq> Dead" and k: "k < length (g_fighters s)"
    and slot: "getFormationPosition ai k s = Inr None"
    and sound: "\<not> f_health (g_fighters s ! k) < f_maxHealth (g_fighters s ! k) * 0.2"
    and run: "updateFighter k delta md (ai, s) = Inr (ai', s')"
  shows "f_position (g_fighters s' ! k) = NaNVector"
  using run
proof (cases rule: updateFighter_cases)
  case skip
  with alive show ?thesis by simp
next
  case (run acc1 f2 acc2 ai4 f4 acc4 f5 acc5 f7 animal7)
  have "acc1 = NaNVector"
    using run(2) slot by (simp add: applyFormationForce_def addForce_def)
  then have "acc2 = NaNVector"
    using run(3) nan_force_stays(1) [of ai s "g_fighters s ! k"] by simp
  then have "acc4 = NaNVector"
    using run(4) nan_force_stays(3) [of md s ai f2] by (simp add: nan_force_stays(2))
  moreover have "f_health f4 = f_health (g_fighters s ! k)"
      "f_maxHealth f4 = f_maxHealth (g_fighters s ! k)"
    using applyTargetingForce_fields [OF run(3)] applyCommanderInfluence_fields [OF run(4)]
    by simp_all
  ultimately have "acc5 = NaNVector"
    using run(5) sound by simp
  then have "f_position f7 = NaNVector"
    using handleFighterAttacks_fields(7) [OF run(6)] by (simp add: moveFighter_def)
  then show ?thesis
    using run(8) k by simp
qed

lemma getFormationPosition_cong:
  assumes "currentFormation ai' = currentFormation ai"
    and "formationCenter ai' = formationCenter ai"
    and "formationDirection ai' = formationDirection ai"
    and "length (g_fighters s') = length (g_fighters s)"
  shows "getFormationPosition ai' i s' = getFormationPosition ai i s"
  using assms
  by (simp add: getFormationPosition_def split: option.splits property_value.splits)

lemma forEachFighter_lost:
  assumes "forEachFighter js delta md (ai, s) = Inr (ai', s')"
    and "k \<in> set js" and "distinct js"
    and "f_state (g_fighters s ! k) \<noteq> Dead" and "k < length (g_fighters s)"
    and "getFormationPosition ai k s = Inr None"
    and "\<not> f_health (g_fighters s ! k) < f_maxHealth (g_fighters s ! k) * 0.2"
  shows "f_position (g_fighters s' ! k) = NaNVector"
  using assms
proof (induction js arbitrary: ai s)
  case Nil
  then show ?case by simp
next
  case (Cons j js)
  from Cons.prems(1) obtain ai1 s1 where
    step: "updateFighter j delta md (ai, s) = Inr (ai1, s1)"
    and rest: "forEachFighter js delta md (ai1, s1) = Inr (ai', s')"
    by (auto split: sum.splits)
  show ?case
  proof (cases "j = k")
    case True
    have "k \<notin> set js" using Cons.prems(3) True by simp
    then have "g_fighters s' ! k = g_fighters s1 ! k"
      using forEachFighter_frame [OF rest, of k] by simp
    then show ?thesis
      using updateFighter_lost [OF Cons.prems(4,5,6,7) step [unfolded True]] by simp
  next
    case False
    have same: "g_fighters s1 ! k = g_fighters s ! k"
        "length (g_fighters s1) = length (g_fighters s)"
      using updateFighter_frame [OF step] False by simp_all
    have "getFormationPosition ai1 k s1 = getFormationPosition ai k s"
      using updateFighter_frame [OF step] by (intro getFormationPosition_cong) simp_all
    then show ?thesis
      using Cons.IH [OF rest] Cons.prems False same by simp
  qed
qed

lemma ceiling_sqrt_3: "\<lceil>sqrt 3\<rceil> = 2"
proof (rule ceiling_unique)
  have "sqrt 1 < sqrt 3"
    by (rule real_sqrt_less_mono) simp
  then show "real_of_int 2 - 1 < sqrt 3" by simp
  have "sqrt 3 \<le> sqrt 4"
    by (rule real_sqrt_le_mono) simp
  then show "sqrt 3 \<le> real_of_int 2" by simp
qed

lemma arrow_last_of_three: "slotPosition Arrow 2 3 center facing = None"
  by (simp add: slotPosition_def arrowFormation_def ceiling_sqrt_3 js_div_def Let_def)

theorem flee_override_witness:
  "(\<exists>ai' s'. FighterAI_update wedge_ai 0.016 False wedge_example = Inr (ai', s')
      \<and> f_state (g_fighters s' ! 0) = Fleeing
      \<and> f_forceAccumulator (g_fighters s' ! 0) = Finite (Vector3 0 0 1.4)
      \<and> f_position (g_fighters s' ! 2) = NaNVector)
   \<and> f_health (g_fighters wedge_example ! 0) = 9
   \<and> f_maxHealth (g_fighters wedge_example ! 0) = 50
   \<and> applyFormationForce (updateFormationCenter wedge_ai wedge_example) 0 wedge_example
        (g_fighters wedge_example ! 0) (Finite zeroVector) = Inr (Finite (Vector3 0 0 0.24))
   \<and> snd (applyTargetingForce (updateFormationCenter wedge_ai wedge_example) wedge_example
        (g_fighters wedge_example ! 0, Finite zeroVector)) = Finite (Vector3 0 0 (- 0.8))
   \<and> applyAvoidanceForce 0 wedge_example (g_fighters wedge_example ! 0) (Finite zeroVector)
        = Finite (Vector3 0 0 0.2)
   \<and> snd (snd (applyCommanderInfluence False wedge_example
        (updateFormationCenter wedge_ai wedge_example, g_fighters wedge_example ! 0,
         Finite zeroVector))) = Finite (Vector3 0 0 0.5)"
proof -
  let ?a = "gorilla (Vector3 0 1 (-20))"
  let ?ai = "updateFormationCenter wedge_ai wedge_example"
  have h: "g_phase wedge_example = Battle" "g_animal wedge_example = Some ?a"
      "a_position ?a = Finite (Vector3 0 1 (-20))"
      "0 < length (g_fighters wedge_example)"
      "f_state (g_fighters wedge_example ! 0) \<noteq> Dead"
      "f_position (g_fighters wedge_example ! 0) = Finite (Vector3 0 1 (-12))"
      "f_health (g_fighters wedge_example ! 0)
         < f_maxHealth (g_fighters wedge_example ! 0) * 0.2"
      "callable_formation (currentFormation wedge_ai)"
    by (simp_all add: wedge_example_def wedge_ai_def newFighter_def gorilla_def
        callable_formation_def formations_def throwing_when_called_def)
  have hm: "f_health (g_fighters wedge_example ! 0) = 9"
      "f_maxHealth (g_fighters wedge_example ! 0) = 50"
    by (simp_all add: wedge_example_def newFighter_def)
  have dir: "multiplyScalar (normalize (subVectors (Vector3 0 1 (-12)) (Vector3 0 1 (-20))))
      (0.7 * 2) = Vector3 0 0 1.4"
    by (simp add: subVectors_def normalize_def vlength_z multiplyScalar_def)
  have a3: "slotPosition Arrow 2 (Suc (Suc (Suc 0))) c f = None" for c f
    using arrow_last_of_three [of c f] by (simp add: numeral_3_eq_3)
  have third: "f_state (g_fighters wedge_example ! 2) \<noteq> Dead"
      "2 < length (g_fighters wedge_example)"
      "getFormationPosition ?ai 2 wedge_example = Inr None"
      "\<not> f_health (g_fighters wedge_example ! 2)
          < f_maxHealth (g_fighters wedge_example ! 2) * 0.2"
    by (simp_all add: wedge_example_def wedge_ai_def newFighter_def getFormationPosition_def
        updateFormationCenter_def formations_def a3 Let_def)
  have forces:
    "applyFormationForce ?ai 0 wedge_example (g_fighters wedge_example ! 0) (Finite zeroVector)
       = Inr (Finite (Vector3 0 0 0.24))"
    "snd (applyTargetingForce ?ai wedge_example
       (g_fighters wedge_example ! 0, Finite zeroVector)) = Finite (Vector3 0 0 (- 0.8))"
    "applyAvoidanceForce 0 wedge_example (g_fighters wedge_example ! 0) (Finite zeroVector)
       = Finite (Vector3 0 0 0.2)"
    "snd (snd (applyCommanderInfluence False wedge_example
       (?ai, g_fighters wedge_example ! 0, Finite zeroVector))) = Finite (Vector3 0 0 0.5)"
    by (simp_all add: wedge_example_def wedge_ai_def newFighterAI_def newFighter_def
        newCommander_def gorilla_def updateFormationCenter_def forwardAt_def
        applyFormationForce_def getFormationPosition_def formations_def slotPosition_def
        arrowFormation_def applyTargetingForce_def applyAvoidanceForce_def
        applyCommanderInfluence_def addForce_def vadd_def multiplyScalar_def subVectors_def
        normalize_def zeroVector_def vlength_z Let_def)
  obtain ai' s' where r: "FighterAI_update wedge_ai 0.016 False wedge_example = Inr (ai', s')"
      "f_state (g_fighters s' ! 0) = Fleeing"
      "f_forceAccumulator (g_fighters s' ! 0) = Finite (Vector3 0 0 1.4)"
    using flee_override [OF h, where delta = "0.016" and mouseIsDown = False] dir by auto
  have "forEachFighter [0..<length (g_fighters wedge_example)] 0.016 False (?ai, wedge_example)
      = Inr (ai', s')"
    using r(1) h(1) by (simp add: FighterAI_update_def)
  then have "f_position (g_fighters s' ! 2) = NaNVector"
    using forEachFighter_lost [OF _ _ _ third] third(2) by simp
  then show ?thesis
    using r hm forces by blast
qed

subsection \<open>Commander influence bonus\<close>

lemma applyFleeingForce_flag:
  "applyFleeingForce s (f, acc) = (f', acc') \<Longrightarrow> f_commanderInfluence f' = f_commanderInfluence f"
  by (auto simp: applyFleeingForce_def Let_def split: option.splits jsvec.splits)

text \<open>With a commander on the field the rally flag is cleared before the attack is made:
  a fighter's hit takes 1 from the animal's health, never 1.5.\<close>

lemma updateFighter_bonus_never_applies:
  assumes cm: "g_commander s = Some c" and an: "g_animal s = Some a"
    and run: "updateFighter i delta md (ai, s) = Inr (ai', s')"
  shows "g_animal s' = Some a \<or> g_animal s' = Some (a\<lparr>a_health := a_health a - 1\<rparr>)"
  using run
proof (cases rule: updateFighter_cases)
  case skip
  then show ?thesis using an by simp
next
  case (run acc1 f2 acc2 ai4 f4 acc4 f5 acc5 f7 animal7)
  have "\<not> f_commanderInfluence f4"
    using applyCommanderInfluence_fields(8) [OF run(4)] cm by simp
  then have "\<not> f_commanderInfluence f5"
    using run(5) applyFleeingForce_flag [of s f4 acc4 f5 acc5]
    by (auto split: if_splits)
  then have "\<not> f_commanderInfluence (moveFighter delta f5 acc5)"
    by (simp add: moveFighter_fields)
  then show ?thesis
    using handleFighterAttacks_damage [OF run(6) [unfolded an]] run(8) by auto
qed

text \<open>
  C9. The commander-influence bonus is never dealt. In \<open>rallied_example\<close> the fighter
  starts the tick with the flag set, is in range and off cooldown, and attacks in that tick:
  the animal's health goes from 1000 to 999, not to 998.5, and the flag is cleared.
\<close>

theorem rallied_fighter_deals_base_damage:
  "map f_commanderInfluence (g_fighters rallied_example) = [True]
   \<and> map_option a_health (g_animal rallied_example) = Some 1000
   \<and> map_sum id (\<lambda>(ai, s). (map f_commanderInfluence (g_fighters s),
                              map f_state (g_fighters s),
                              map f_lastAttackTime (g_fighters s),
                              map_option a_health (g_animal s)))
       (FighterAI_update newFighterAI 0.016 False rallied_example)
     = Inr ([False], [Attacking], [5], Some 999)"
  by (simp add: rallied_example_def eval_defs vlength_z)

subsection \<open>Health clamp\<close>

lemma hitFighter_ok: "f_state f \<noteq> Dead \<Longrightarrow> fighter_ok f \<Longrightarrow> fighter_ok (hitFighter damage f)"
  by (auto simp: fighter_ok_def hitFighter_def Let_def)

lemma hitCommander_ok:
  "c_state c \<noteq> Some Dead \<Longrightarrow> commander_ok c \<Longrightarrow> commander_ok (hitCommander damage c)"
  by (auto simp: commander_ok_def hitCommander_def Let_def)

lemma hitFighter_dead: "f_state f = Dead \<Longrightarrow> f_state (hitFighter damage f) = Dead"
  by (simp add: hitFighter_def Let_def)

lemma list_all_update:
  "list_all P xs \<Longrightarrow> P v \<Longrightarrow> list_all P (xs[i := v])"
  by (induction xs arbitrary: i) (auto split: nat.splits)

lemma damageTarget_ok: "units_ok s \<Longrightarrow> units_ok (damageTarget t baseDamage r s)"
  by (auto simp: units_ok_def damageTarget_def Let_def list_all_length nth_list_update
      intro!: hitFighter_ok hitCommander_ok split: target_ref.splits option.splits)

lemma damageTarget_dead_kept: "dead_kept s (damageTarget t baseDamage r s)"
  by (auto simp: dead_kept_def damageTarget_def Let_def nth_list_update
      split: target_ref.splits option.splits)

lemma damageTarget_rest:
  "g_phase (damageTarget t baseDamage r s) = g_phase s"
  "g_animal (damageTarget t baseDamage r s) = g_animal s"
  by (auto simp: damageTarget_def Let_def split: target_ref.splits option.splits)

lemma dead_kept_refl: "dead_kept s s"
  by (simp add: dead_kept_def)

lemma dead_kept_trans: "dead_kept s s1 \<Longrightarrow> dead_kept s1 s2 \<Longrightarrow> dead_kept s s2"
  by (auto simp: dead_kept_def)

lemma damageTargets_ok: "units_ok s \<Longrightarrow> units_ok (damageTargets ts baseDamage rnd k s)"
  by (induction ts arbitrary: k s) (simp_all add: damageTarget_ok)

lemma damageTargets_dead_kept: "dead_kept s (damageTargets ts baseDamage rnd k s)"
proof (induction ts arbitrary: k s)
  case Nil
  show ?case by (simp add: dead_kept_refl)
next
  case (Cons t ts)
  show ?case
    using dead_kept_trans [OF damageTarget_dead_kept Cons.IH] by simp
qed

lemma damageTargets_rest:
  "g_phase (damageTargets ts baseDamage rnd k s) = g_phase s"
  "g_animal (damageTargets ts baseDamage rnd k s) = g_animal s"
  by (induction ts arbitrary: k s) (simp_all add: damageTarget_rest)


lemma applyTargetingForce_alive:
  "applyTargetingForce ai s (f, acc) = (f', acc') \<Longrightarrow> f_state f \<noteq> Dead \<Longrightarrow> f_state f' \<noteq> Dead"
  by (auto simp: applyTargetingForce_def Let_def split: option.splits if_splits jsvec.splits)

lemma applyFleeingForce_vitals:
  assumes "applyFleeingForce s (f, acc) = (f', acc')"
  shows "f_health f' = f_health f" and "f_state f \<noteq> Dead \<Longrightarrow> f_state f' \<noteq> Dead"
  using assms by (auto simp: applyFleeingForce_def Let_def split: option.splits jsvec.splits)

lemma handleFighterAttacks_animal_state:
  "handleFighterAttacks time (f, animal) = (f', animal') \<Longrightarrow>
     map_option a_state animal' = map_option a_state animal"
  by (auto simp: handleFighterAttacks_def Let_def split: option.splits if_splits jsvec.splits)

lemma updateFighter_engine_kept:
  assumes "updateFighter j delta md (ai, s) = Inr (ai', s')"
  shows "engine_kept s s'"
  using assms
proof (cases rule: updateFighter_cases)
  case skip
  then show ?thesis by (simp add: engine_kept_def)
next
  case (run acc1 f2 acc2 ai4 f4 acc4 f5 acc5 f7 animal7)
  let ?f = "g_fighters s ! j"
  have f4: "f_health f4 = f_health ?f" "f_state f4 \<noteq> Dead"
    using applyTargetingForce_fields(2) [OF run(3)] applyTargetingForce_alive [OF run(3) run(1)]
      applyCommanderInfluence_fields(2,4) [OF run(4)]
    by simp_all
  have f5: "f_health f5 = f_health ?f" "f_state f5 \<noteq> Dead"
    using run(5) f4 applyFleeingForce_vitals [of s f4 acc4 f5 acc5]
    by (auto split: if_splits)
  have f7: "f_health f7 = f_health ?f" "f_state f7 \<noteq> Dead"
    using handleFighterAttacks_fields(1,3) [OF run(6)] f5 by (simp_all add: moveFighter_fields)
  have upd: "(g_fighters s)[j := f7] ! k = (if k = j then f7 else g_fighters s ! k)"
    if "k < length (g_fighters s)" for k
    using that by simp
  show ?thesis
    using f7 run(1,8) handleFighterAttacks_animal_state [OF run(6)]
    by (auto simp: engine_kept_def upd)
qed

lemma engine_kept_trans: "engine_kept s s1 \<Longrightarrow> engine_kept s1 s2 \<Longrightarrow> engine_kept s s2"
  by (auto simp: engine_kept_def)

lemma forEachFighter_engine_kept:
  "forEachFighter js delta md (ai, s) = Inr (ai', s') \<Longrightarrow> engine_kept s s'"
proof (induction js arbitrary: ai s)
  case Nil
  then show ?case by (simp add: engine_kept_def)
next
  case (Cons j js)
  from Cons.prems obtain ai1 s1 where
    step: "updateFighter j delta md (ai, s) = Inr (ai1, s1)"
    and rest: "forEachFighter js delta md (ai1, s1) = Inr (ai', s')"
    by (auto split: sum.splits)
  show ?case
    using engine_kept_trans [OF updateFighter_engine_kept [OF step] Cons.IH [OF rest]] .
qed

lemma FighterAI_update_engine_kept:
  "FighterAI_update ai delta md s = Inr (ai', s') \<Longrightarrow> engine_kept s s'"
  by (auto simp: FighterAI_update_def engine_kept_def split: if_splits
      dest: forEachFighter_engine_kept)

lemma engine_kept_units_ok: "engine_kept s s' \<Longrightarrow> units_ok s \<Longrightarrow> units_ok s'"
  by (auto simp: engine_kept_def units_ok_def list_all_length fighter_ok_def)

lemma engine_kept_dead_kept: "engine_kept s s' \<Longrightarrow> dead_kept s s'"
  by (auto simp: engine_kept_def dead_kept_def)

lemma vitals_kept_fighters:
  assumes "vitals_kept s s'"
  shows "length (g_fighters s') = length (g_fighters s)"
    and "k < length (g_fighters s) \<Longrightarrow> f_health (g_fighters s' ! k) = f_health (g_fighters s ! k)"
    and "k < length (g_fighters s) \<Longrightarrow> f_state (g_fighters s' ! k) = f_state (g_fighters s ! k)"
proof -
  have h: "map f_health (g_fighters s') = map f_health (g_fighters s)"
    and st: "map f_state (g_fighters s') = map f_state (g_fighters s)"
    using assms by (simp_all add: vitals_kept_def)
  show len: "length (g_fighters s') = length (g_fighters s)"
    using map_eq_imp_length_eq [OF h] .
  show "f_health (g_fighters s' ! k) = f_health (g_fighters s ! k)" if "k < length (g_fighters s)"
    using arg_cong [OF h, of "\<lambda>xs. xs ! k"] that len by simp
  show "f_state (g_fighters s' ! k) = f_state (g_fighters s ! k)" if "k < length (g_fighters s)"
    using arg_cong [OF st, of "\<lambda>xs. xs ! k"] that len by simp
qed

lemma vitals_kept_units_ok:
  assumes "vitals_kept s s'" and "units_ok s"
  shows "units_ok s'"
proof -
  have "list_all fighter_ok (g_fighters s')"
    using assms(2) vitals_kept_fighters [OF assms(1)]
    by (simp add: units_ok_def list_all_length fighter_ok_def)
  moreover have "case g_commander s' of None \<Rightarrow> True | Some c \<Rightarrow> commander_ok c"
  proof (cases "g_commander s'")
    case None
    then show ?thesis by simp
  next
    case (Some c')
    then obtain c where c: "g_commander s = Some c" "c_health c' = c_health c"
        "c_state c' = c_state c"
      using assms(1) by (cases "g_commander s") (auto simp: vitals_kept_def)
    then show ?thesis
      using assms(2) Some by (simp add: units_ok_def commander_ok_def)
  qed
  ultimately show ?thesis
    by (simp add: units_ok_def)
qed

lemma vitals_kept_dead_kept:
  assumes "vitals_kept s s'"
  shows "dead_kept s s'"
proof -
  have "Option.bind (g_commander s') c_state = Option.bind (g_commander s) c_state"
    using assms by (simp add: vitals_kept_def)
  then show ?thesis
    using vitals_kept_fighters [OF assms] by (simp add: dead_kept_def)
qed

lemma commanderAttack_kept:
  "g_fighters (commanderAttack s) = g_fighters s"
  "map_option c_health (g_commander (commanderAttack s)) = map_option c_health (g_commander s)"
  "Option.bind (g_commander (commanderAttack s)) c_state = Option.bind (g_commander s) c_state"
  "map_option a_state (g_animal (commanderAttack s)) = map_option a_state (g_animal s)"
  by (auto simp: commanderAttack_def recordDamageToAnimal_def Let_def
      split: option.splits jsvec.splits)

lemma checkBattleEnd_kept:
  assumes "checkBattleEnd s = Inr s'"
  shows "g_fighters s' = g_fighters s" and "g_commander s' = g_commander s"
    and "g_animal s' = g_animal s"
  using assms
  by (auto simp: checkBattleEnd_def endBattle_def Let_def split: option.splits if_splits)

lemma battle_step_units_ok:
  assumes "battle_step s s'" and "units_ok s"
  shows "units_ok s'"
  using assms
proof (cases rule: battle_step.cases)
  case (clock delta)
  then show ?thesis using assms(2) by (simp add: units_ok_def)
next
  case commander_attack
  then show ?thesis
    using assms(2) commanderAttack_kept(1,2,3) [of s]
    by (auto simp: units_ok_def commander_ok_def split: option.splits Option.bind_splits)
next
  case (fighter_engine ai delta mouseIsDown ai')
  then show ?thesis
    using engine_kept_units_ok [OF FighterAI_update_engine_kept] assms(2) by blast
next
  case (animal_attack a targets baseDamage rnd applied a' s1)
  then have "s1 = s \<or> s1 = damageTargets targets baseDamage rnd 0 s"
    by (auto simp: performAttack_def split: if_splits)
  then have "units_ok s1"
    using assms(2) damageTargets_ok by auto
  then show ?thesis
    using animal_attack(1) by (simp add: units_ok_def)
next
  case other_writes
  then show ?thesis using vitals_kept_units_ok assms(2) by blast
next
  case end_check
  then show ?thesis
    using assms(2) checkBattleEnd_kept(1,2) [of s s'] by (simp add: units_ok_def)
qed

lemma battle_step_dead_kept:
  assumes "battle_step s s'"
  shows "dead_kept s s'"
  using assms
proof (cases rule: battle_step.cases)
  case (clock delta)
  then show ?thesis by (simp add: dead_kept_def)
next
  case commander_attack
  then show ?thesis
    using commanderAttack_kept(1,3) [of s] by (simp add: dead_kept_def)
next
  case (fighter_engine ai delta mouseIsDown ai')
  then show ?thesis
    using engine_kept_dead_kept [OF FighterAI_update_engine_kept] by blast
next
  case (animal_attack a targets baseDamage rnd applied a' s1)
  then have "s1 = s \<or> s1 = damageTargets targets baseDamage rnd 0 s"
    by (auto simp: performAttack_def split: if_splits)
  then have "dead_kept s s1"
    using damageTargets_dead_kept dead_kept_refl by auto
  then show ?thesis
    using animal_attack(1) by (simp add: dead_kept_def)
next
  case other_writes
  then show ?thesis using vitals_kept_dead_kept by blast
next
  case end_check
  then show ?thesis
    using checkBattleEnd_kept(1,2) [of s s'] by (simp add: dead_kept_def)
qed

lemma battle_step_animal_not_dead:
  assumes "battle_step s s'" and "animal_not_dead s"
  shows "animal_not_dead s'"
  using assms
proof (cases rule: battle_step.cases)
  case (clock delta)
  then show ?thesis using assms(2) by (simp add: animal_not_dead_def)
next
  case commander_attack
  then show ?thesis
    using assms(2) commanderAttack_kept(4) [of s]
    by (auto simp: animal_not_dead_def split: option.splits)
next
  case (fighter_engine ai delta mouseIsDown ai')
  then show ?thesis
    using FighterAI_update_engine_kept [of ai delta mouseIsDown s ai' s'] assms(2)
    by (auto simp: engine_kept_def animal_not_dead_def split: option.splits)
next
  case (animal_attack a targets baseDamage rnd applied a' s1)
  then have "a_state a' = a_state a"
    by (auto simp: performAttack_def split: if_splits)
  then show ?thesis
    using animal_attack(1,3) assms(2) by (simp add: animal_not_dead_def)
next
  case other_writes
  then show ?thesis
    using assms(2) by (auto simp: vitals_kept_def animal_not_dead_def split: option.splits)
next
  case end_check
  then show ?thesis
    using assms(2) checkBattleEnd_kept(3) [of s s'] by (simp add: animal_not_dead_def)
qed

lemma battle_start_ok: "battle_start s \<Longrightarrow> units_ok s \<and> animal_not_dead s"
  by (auto simp: battle_start_def units_ok_def animal_not_dead_def list_all_iff
      fighter_ok_def commander_ok_def split: option.splits)

lemma reachable_ok: "reachable s \<Longrightarrow> units_ok s \<and> animal_not_dead s"
  by (induction rule: reachable.induct)
     (auto simp: battle_start_ok battle_step_units_ok battle_step_animal_not_dead)

lemma steps_dead_kept: "battle_step\<^sup>*\<^sup>* s s' \<Longrightarrow> dead_kept s s'"
  by (induction rule: rtranclp_induct)
     (auto intro: dead_kept_refl dead_kept_trans battle_step_dead_kept)


text \<open>
  C1, as the code has it. In every state of a battle session, every fighter and the commander
  have a health that is not negative and are \<open>dead\<close> exactly when their health is zero;
  whoever is dead stays dead through all later steps of the session. The animal is never
  \<open>dead\<close>: nothing assigns that state to it.
\<close>

theorem health_clamp_fighters_commander:
  assumes "reachable s"
  shows "(\<forall>f \<in> set (g_fighters s). 0 \<le> f_health f \<and> (f_state f = Dead \<longleftrightarrow> f_health f = 0))
       \<and> (\<forall>c. g_commander s = Some c \<longrightarrow>
             0 \<le> c_health c \<and> (c_state c = Some Dead \<longleftrightarrow> c_health c = 0))
       \<and> (\<forall>a. g_animal s = Some a \<longrightarrow> a_state a \<noteq> Dead)
       \<and> (\<forall>s'. battle_step\<^sup>*\<^sup>* s s' \<longrightarrow> dead_kept s s')"
  using reachable_ok [OF assms] steps_dead_kept
  by (auto simp: units_ok_def animal_not_dead_def list_all_iff fighter_ok_def commander_ok_def)

lemma second_blow_reachable: "reachable second_blow"
proof -
  let ?g = "gorilla (Vector3 0 1 (-30))"
  let ?ts = "[FighterRef 0, CommanderRef]"
  let ?s1 = "struck_state\<lparr>g_animal := Some struck_animal\<rparr>"
  let ?s2 = "?s1\<lparr>g_time := g_time ?s1 + 2\<rparr>"
  have ph: "g_phase struck_state = Battle" "g_time struck_state = 5"
    by (simp_all add: struck_state_def damageTargets_rest battle_example_def
        damageTarget_def hitFighter_def hitCommander_def Let_def newFighter_def newCommander_def)
  have 0: "reachable battle_example"
    by (rule reachable.start)
       (simp add: battle_start_def battle_example_def newFighter_def newCommander_def gorilla_def)
  have "performAttack ?g ?ts 25 (\<lambda>k. 1 / 2) battle_example = (True, struck_animal, struck_state)"
    by (simp add: performAttack_def struck_animal_def struck_state_def gorilla_def
        battle_example_def)
  then have "battle_step battle_example ?s1"
    by (intro battle_step.animal_attack [where a = ?g]) (simp_all add: battle_example_def)
  then have 1: "reachable ?s1"
    using 0 reachable.step by blast
  have "battle_step ?s1 ?s2"
    by (rule battle_step.clock) (simp add: ph)
  then have 2: "reachable ?s2"
    using 1 reachable.step by blast
  have s2: "?s2 = struck_state\<lparr>g_animal := Some struck_animal, g_time := 7\<rparr>"
    by (simp add: ph)
  have "performAttack struck_animal ?ts 25 (\<lambda>k. 1 / 2) ?s2
      = (True, struck_animal\<lparr>a_lastAttackTime := 7\<rparr>,
         damageTargets ?ts 25 (\<lambda>k. 1 / 2) 0 ?s2)"
    by (simp add: performAttack_def struck_animal_def gorilla_def ph)
  then have "battle_step ?s2 second_blow"
    unfolding second_blow_def s2 [symmetric]
    by (intro battle_step.animal_attack [where a = struck_animal]) (simp_all add: ph)
  then show ?thesis
    using 2 reachable.step by blast
qed

theorem health_clamp_fighters_commander_witness:
  "reachable second_blow
   \<and> map f_state (g_fighters second_blow) = [Dead]
   \<and> map f_health (g_fighters second_blow) = [0]
   \<and> map_option c_health (g_commander second_blow) = Some 150
   \<and> dead_kept second_blow (second_blow\<lparr>g_time := g_time second_blow + 1\<rparr>)"
proof -
  have st: "map f_state (g_fighters second_blow) = [Dead]"
      "map_option c_health (g_commander second_blow) = Some 150"
      "g_phase second_blow = Battle"
    by (simp_all add: second_blow_def struck_state_def battle_example_def damageTarget_def
        hitFighter_def hitCommander_def attackDamage_def newFighter_def newCommander_def Let_def)
  have "battle_step\<^sup>*\<^sup>* second_blow (second_blow\<lparr>g_time := g_time second_blow + 1\<rparr>)"
    using battle_step.clock [of second_blow 1] st(3) by blast
  moreover obtain f where f: "g_fighters second_blow = [f]" "f_state f = Dead"
    using st(1) by auto
  ultimately show ?thesis
    using health_clamp_fighters_commander [OF second_blow_reachable] second_blow_reachable st f
    by simp
qed

text \<open>
  The claim as it is written fails for the animal. In one tick the commander's hit takes its
  health from 5 to 0 and its state stays \<open>idle\<close>; the fighter's hit that follows in the same
  tick takes the health to -1.
\<close>

theorem animal_health_counterexample:
  "g_phase pressed_example = Battle
   \<and> map_option a_health (g_animal pressed_example) = Some 5
   \<and> map_option (\<lambda>a. (a_health a, a_state a)) (g_animal (commanderAttack pressed_example))
       = Some (0, Idle)
   \<and> map_sum id (\<lambda>(ai, s). map_option (\<lambda>a. (a_health a, a_state a)) (g_animal s))
       (FighterAI_update newFighterAI 0.016 False (commanderAttack pressed_example))
       = Inr (Some (-1, Idle))"
  by (simp add: pressed_example_def commanderAttack_def recordDamageToAnimal_def eval_defs
      vlength_z)

end
